theory Spec2Isabelle
  imports Main "HOL-Library.Word"
begin

section \<open>Requests and responses\<close>

text \<open>
  The two POST routes of \<^verbatim>\<open>server.js\<close> run the chain
  \<^verbatim>\<open>upload.fields\<close>, field validator, file validator, handler. The request that
  the validators and the handler see: \<^verbatim>\<open>req.body\<close> maps a field name to its text
  value. For a multipart body multer sets \<^verbatim>\<open>req.files\<close> to an object that maps a
  slot name to the array of files received for it; for any other body multer does nothing
  and \<^verbatim>\<open>req.files\<close> stays \<^verbatim>\<open>undefined\<close>, here \<open>None\<close>. A name that was
  not sent reads as \<^verbatim>\<open>undefined\<close> in either object, here \<open>None\<close>.
\<close>

type_synonym byte = "8 word"

record multer_file =
  originalname :: string
  mimetype :: string
  buffer :: "byte list"

record request =
  body :: "string \<rightharpoonup> string"
  files :: "(string \<rightharpoonup> multer_file list) option"

record response =
  status :: nat
  message :: string

text \<open>
  The errors that are thrown or rejected with: a write stream's error, the database's
  error, and the \<^verbatim>\<open>TypeError\<close> of reading a property of \<^verbatim>\<open>undefined\<close>.
\<close>

datatype js_error = StreamError string | FirestoreError string | TypeError

text \<open>
  A middleware answers the request, calls \<^verbatim>\<open>next()\<close>, or throws; what it throws
  goes to the error handler of Express.
\<close>

datatype middleware = Respond response | Next | Throw js_error

text \<open>
  \<^verbatim>\<open>!req.body[field]\<close> on a text field: true for \<^verbatim>\<open>undefined\<close> and for the
  empty string, false for every other string.
\<close>

definition falsy :: "string option \<Rightarrow> bool" where
  "falsy v = (case v of None \<Rightarrow> True | Some s \<Rightarrow> s = [])"

section \<open>Field validators\<close>

text \<open>
  The loop \<^verbatim>\<open>for (const field of requiredFields) if (!req.body[field]) return
  res.status(400).json(...)\<close>, which both field validators run over their own list.
\<close>

fun requireFields :: "string list \<Rightarrow> request \<Rightarrow> middleware" where
  "requireFields [] req = Next"
| "requireFields (field # rest) req =
     (if falsy (body req field)
      then Respond \<lparr>status = 400, message = field @ '' is required''\<rparr>
      else requireFields rest req)"

definition researchRequiredFields :: "string list" where
  "researchRequiredFields =
     [''letterNumber'', ''name'', ''researcherName'', ''address'', ''inputValue'',
      ''institution'', ''occupation'', ''judulPenelitian'', ''researchField'',
      ''tujuanPenelitian'', ''supervisorName'', ''teamMembers'', ''statusPenelitian'',
      ''researchPeriod'', ''researchLocation'']"

definition internshipRequiredFields :: "string list" where
  "internshipRequiredFields =
     [''letterNumber'', ''applicantsName'', ''address'', ''inputValue'', ''institution'',
      ''occupation'', ''judul'', ''supervisorName'', ''tujuanPermohonan'', ''teamMembers'',
      ''statusPermohonan'', ''period'', ''location'']"

definition validateResearchForm :: "request \<Rightarrow> middleware" where
  "validateResearchForm req = requireFields researchRequiredFields req"

definition validateInternshipForm :: "request \<Rightarrow> middleware" where
  "validateInternshipForm req = requireFields internshipRequiredFields req"

section \<open>File validators\<close>

definition allowedMimeTypes :: "string list" where
  "allowedMimeTypes = [''application/pdf'', ''image/jpeg'', ''image/png'']"

text \<open>
  The loop over \<^verbatim>\<open>requiredFiles\<close>. \<^verbatim>\<open>req.files[file]\<close> is read without a
  guard: when \<^verbatim>\<open>req.files\<close> is \<^verbatim>\<open>undefined\<close> the read throws. Otherwise a
  slot that is \<^verbatim>\<open>undefined\<close> or an empty array is reported as required, and else the
  declared type of the first file of the slot is looked up in
  \<^verbatim>\<open>allowedMimeTypes\<close>.
\<close>

fun requireFiles :: "string list \<Rightarrow> request \<Rightarrow> middleware" where
  "requireFiles [] req = Next"
| "requireFiles (slot # rest) req =
     (case files req of
        None \<Rightarrow> Throw TypeError
      | Some fm \<Rightarrow>
          (case fm slot of
             None \<Rightarrow> Respond \<lparr>status = 400, message = ''File '' @ slot @ '' is required''\<rparr>
           | Some [] \<Rightarrow> Respond \<lparr>status = 400, message = ''File '' @ slot @ '' is required''\<rparr>
           | Some (f # _) \<Rightarrow>
               if mimetype f \<notin> set allowedMimeTypes
               then Respond \<lparr>status = 400,
                      message = ''File '' @ slot @ '' must be a PDF, JPEG, or PNG''\<rparr>
               else requireFiles rest req))"

definition researchRequiredFiles :: "string list" where
  "researchRequiredFiles = [''suratPengantarFile'', ''proposalFile'', ''ktpFile'']"

definition internshipRequiredFiles :: "string list" where
  "internshipRequiredFiles = [''suratPermohonanFile'', ''proposalFile'', ''ktpFile'']"

definition validateResearchFiles :: "request \<Rightarrow> middleware" where
  "validateResearchFiles req = requireFiles researchRequiredFiles req"

definition validateInternshipFiles :: "request \<Rightarrow> middleware" where
  "validateInternshipFiles req = requireFiles internshipRequiredFiles req"

section \<open>External collaborators\<close>

text \<open>
  The handlers talk to three things outside the repository: the identifier generator
  \<^verbatim>\<open>uuidv4\<close>, the storage bucket and the Firestore database. What they answer is
  chosen by the environment, so it is a parameter of the model: the \<open>n\<close>-th call of each
  gets the \<open>n\<close>-th answer. A write stream either emits \<^verbatim>\<open>error\<close> (nothing is
  stored) or \<^verbatim>\<open>finish\<close> (the object is stored); \<^verbatim>\<open>add\<close> either rejects
  (nothing is written) or resolves (one document is written, the
  \<^verbatim>\<open>serverTimestamp()\<close> sentinel replaced by the server's clock).
\<close>

record services =
  bucket_name :: string
  uuidv4 :: "nat \<Rightarrow> string"
  stream_error :: "nat \<Rightarrow> string option"
  add_error :: "nat \<Rightarrow> string option"
  server_time :: "nat \<Rightarrow> nat"

record stored_object =
  object_name :: string
  contentType :: string
  content :: "byte list"

datatype fsvalue = FString string | FNull | FUndefined | FServerTimestamp | FTimestamp nat

type_synonym document = "(string \<times> fsvalue) list"

datatype event =
    StreamOpened string
  | StreamFinished string
  | StreamErrored string
  | AddCalled "string list"
  | AddResolved "string list"
  | AddRejected "string list"

record world =
  objects :: "stored_object list"
  documents :: "(string list \<times> document) list"
  uuids_drawn :: nat
  streams_opened :: nat
  adds_called :: nat
  trace :: "event list"


text \<open>
  An asynchronous operation takes the world and returns either the error it throws (or
  rejects with) or its value, together with the world it leaves. \<^verbatim>\<open>await m\<close>
  followed by the rest of the block is \<open>await m k\<close>: \<open>k\<close> starts in the world that
  \<open>m\<close> left, and does not start when \<open>m\<close> threw.
\<close>

type_synonym 'a async = "world \<Rightarrow> (js_error + 'a) \<times> world"

definition resolved :: "'a \<Rightarrow> 'a async" where
  "resolved x w = (Inr x, w)"

definition await :: "'a async \<Rightarrow> ('a \<Rightarrow> 'b async) \<Rightarrow> 'b async" where
  "await m k w = (case m w of (Inl e, w') \<Rightarrow> (Inl e, w') | (Inr x, w') \<Rightarrow> k x w')"

definition try_catch ::
  "response async \<Rightarrow> (js_error \<Rightarrow> response) \<Rightarrow> world \<Rightarrow> response \<times> world" where
  "try_catch m h w = (case m w of (Inl e, w') \<Rightarrow> (h e, w') | (Inr r, w') \<Rightarrow> (r, w'))"

subsection \<open>Firestore \<^verbatim>\<open>add\<close>\<close>

fun resolve_sentinel :: "nat \<Rightarrow> string \<times> fsvalue \<Rightarrow> string \<times> fsvalue" where
  "resolve_sentinel t (k, FServerTimestamp) = (k, FTimestamp t)"
| "resolve_sentinel t (k, v) = (k, v)"

definition collection_add :: "services \<Rightarrow> string list \<Rightarrow> document \<Rightarrow> unit async" where
  "collection_add env path doc w =
     (let n = adds_called w;
          w1 = w\<lparr>adds_called := Suc n, trace := trace w @ [AddCalled path]\<rparr>
      in case add_error env n of
           Some err \<Rightarrow> (Inl (FirestoreError err), w1\<lparr>trace := trace w1 @ [AddRejected path]\<rparr>)
         | None \<Rightarrow>
             (Inr (),
              w1\<lparr>documents := documents w1 @ [(path, map (resolve_sentinel (server_time env n)) doc)],
                 trace := trace w1 @ [AddResolved path]\<rparr>))"

section \<open>The upload helper\<close>

text \<open>
  A string of the model is the sequence of the UTF-8 bytes of the program's string.
  \<^verbatim>\<open>encodeURIComponent\<close> on these bytes: letters, digits and
  \<^verbatim>\<open>- _ . ! ~ * ' ( )\<close> stay, every other byte becomes \<^verbatim>\<open>%XX\<close>.
\<close>

definition uriUnreserved :: "char \<Rightarrow> bool" where
  "uriUnreserved c =
     (c \<in> set (''ABCDEFGHIJKLMNOPQRSTUVWXYZabcdefghijklmnopqrstuvwxyz0123456789-_.!~*()''
               @ [CHR 0x27]))"

definition hexDigit :: "nat \<Rightarrow> char" where
  "hexDigit n = ''0123456789ABCDEF'' ! (n mod 16)"

definition percentEncode :: "char \<Rightarrow> string" where
  "percentEncode c =
     [CHR ''%'', hexDigit ((of_char c :: nat) div 16), hexDigit ((of_char c :: nat) mod 16)]"

definition encodeURIComponent :: "string \<Rightarrow> string" where
  "encodeURIComponent s =
     concat (map (\<lambda>c. if uriUnreserved c then [c] else percentEncode c) s)"

definition publicUrl :: "string \<Rightarrow> string \<Rightarrow> string" where
  "publicUrl bucket name =
     ''https://firebasestorage.googleapis.com/v0/b/'' @ bucket @ ''/o/''
       @ encodeURIComponent name @ ''?alt=media''"

text \<open>
  \<^verbatim>\<open>uploadFileToFirebase\<close>: the object is named by a new identifier, an underscore
  and the original name; the stream carries the declared type and is ended with the whole
  buffer; \<^verbatim>\<open>error\<close> rejects with the stream's error, \<^verbatim>\<open>finish\<close> resolves with
  the URL built from the bucket's and the object's name.
\<close>

definition uploadFileToFirebase :: "services \<Rightarrow> multer_file \<Rightarrow> string async" where
  "uploadFileToFirebase env f w =
     (let name = uuidv4 env (uuids_drawn w) @ ''_'' @ originalname f;
          n = streams_opened w;
          w1 = w\<lparr>uuids_drawn := Suc (uuids_drawn w), streams_opened := Suc n,
                 trace := trace w @ [StreamOpened name]\<rparr>
      in case stream_error env n of
           Some err \<Rightarrow> (Inl (StreamError err), w1\<lparr>trace := trace w1 @ [StreamErrored name]\<rparr>)
         | None \<Rightarrow>
             (Inr (publicUrl (bucket_name env) name),
              w1\<lparr>objects := objects w1 @
                     [\<lparr>object_name = name, contentType = mimetype f, content = buffer f\<rparr>],
                 trace := trace w1 @ [StreamFinished name]\<rparr>))"

section \<open>Handlers\<close>

text \<open>
  The expression \<^verbatim>\<open>req.files.slot ? await uploadFileToFirebase(req.files.slot[0]) :
  null\<close>. It throws when \<^verbatim>\<open>req.files\<close> is \<^verbatim>\<open>undefined\<close>. Every array is
  truthy; on an empty one the helper receives \<^verbatim>\<open>undefined\<close>, draws its identifier
  and throws on \<^verbatim>\<open>file.originalname\<close>.
\<close>

definition uploadSlot :: "services \<Rightarrow> request \<Rightarrow> string \<Rightarrow> fsvalue async" where
  "uploadSlot env req slot =
     (case files req of
        None \<Rightarrow> (\<lambda>w. (Inl TypeError, w))
      | Some fm \<Rightarrow>
          (case fm slot of
             None \<Rightarrow> resolved FNull
           | Some [] \<Rightarrow> (\<lambda>w. (Inl TypeError, w\<lparr>uuids_drawn := Suc (uuids_drawn w)\<rparr>))
           | Some (f # _) \<Rightarrow>
               await (uploadFileToFirebase env f) (\<lambda>url. resolved (FString url))))"

text \<open>A destructured body field, as it enters the document.\<close>

definition field_value :: "request \<Rightarrow> string \<Rightarrow> string \<times> fsvalue" where
  "field_value req k = (k, case body req k of None \<Rightarrow> FUndefined | Some s \<Rightarrow> FString s)"

definition penelitianHandler :: "services \<Rightarrow> request \<Rightarrow> world \<Rightarrow> response \<times> world" where
  "penelitianHandler env req =
     try_catch
       (await (uploadSlot env req ''suratPengantarFile'') (\<lambda>suratPengantarUrl.
        await (uploadSlot env req ''proposalFile'') (\<lambda>proposalUrl.
        await (uploadSlot env req ''ktpFile'') (\<lambda>ktpUrl.
        await (collection_add env [''pelayanan'', ''penelitian'', ''data'']
                 (map (field_value req)
                    [''letterNumber'', ''name'', ''researcherName'', ''address'',
                     ''inputValue'', ''institution'', ''occupation'', ''judulPenelitian'',
                     ''researchField'', ''tujuanPenelitian'', ''supervisorName'',
                     ''teamMembers'', ''statusPenelitian'', ''researchPeriod'',
                     ''researchLocation'']
                  @ [(''suratPengantarUrl'', suratPengantarUrl),
                     (''proposalUrl'', proposalUrl),
                     (''ktpUrl'', ktpUrl),
                     (''timestamp'', FServerTimestamp)]))
          (\<lambda>_. resolved \<lparr>status = 200, message = ''Data berhasil disimpan''\<rparr>)))))
       (\<lambda>err. \<lparr>status = 500, message = ''Terjadi kesalahan saat menyimpan data''\<rparr>)"

definition magangHandler :: "services \<Rightarrow> request \<Rightarrow> world \<Rightarrow> response \<times> world" where
  "magangHandler env req =
     try_catch
       (await (uploadSlot env req ''suratPermohonanFile'') (\<lambda>suratPermohonanUrl.
        await (uploadSlot env req ''proposalFile'') (\<lambda>proposalUrl.
        await (uploadSlot env req ''ktpFile'') (\<lambda>ktpUrl.
        await (collection_add env [''pelayanan'', ''magang'', ''magang'']
                 (map (field_value req)
                    [''letterNumber'', ''applicantsName'', ''address'', ''inputValue'',
                     ''institution'', ''occupation'', ''judul'', ''supervisorName'',
                     ''tujuanPermohonan'', ''teamMembers'', ''statusPermohonan'',
                     ''period'', ''location'']
                  @ [(''suratPermohonanUrl'', suratPermohonanUrl),
                     (''proposalUrl'', proposalUrl),
                     (''ktpUrl'', ktpUrl),
                     (''timestamp'', FServerTimestamp)]))
          (\<lambda>_. resolved \<lparr>status = 200, message = ''Data berhasil disimpan''\<rparr>)))))
       (\<lambda>err. \<lparr>status = 500, message = ''Terjadi kesalahan saat menyimpan data''\<rparr>)"

section \<open>The upload middleware\<close>

text \<open>
  The request as it reaches a route, after the global body parsers. \<open>multipart\<close> says
  whether the body is a multipart form. \<open>form_fields\<close> are the text fields: those of the
  multipart form, or else what the body parsers left in \<^verbatim>\<open>req.body\<close>, each name
  with one text value. \<open>file_parts\<close> are the file parts of a multipart form in the order
  sent, each with the name of its form field. \<open>parse_failure\<close> is the error, if any, with
  which the multipart parser itself stops on this body (a malformed body, a text field
  beyond the parser's own default limits).
\<close>

record http_request =
  multipart :: bool
  form_fields :: "string \<rightharpoonup> string"
  file_parts :: "(string \<times> multer_file) list"
  parse_failure :: "string option"

datatype multer_error =
    LIMIT_UNEXPECTED_FILE string
  | LIMIT_FILE_SIZE string
  | ParserError string

text \<open>\<^verbatim>\<open>limits: { fileSize: 10 * 1024 * 1024 }\<close>.\<close>

definition fileSize :: nat where
  "fileSize = 10 * 1024 * 1024"

text \<open>
  The file parts, taken in order into \<^verbatim>\<open>req.files\<close>, for
  \<^verbatim>\<open>upload.fields\<close> over slots that all have \<^verbatim>\<open>maxCount: 1\<close>. A part without
  a file name is skipped. A part whose field is none of the slots, or whose slot already
  holds its one file, is refused as unexpected. A file that reaches the size limit is
  refused. The first refusal ends the parsing.
\<close>

fun take_files ::
  "string list \<Rightarrow> (string \<times> multer_file) list \<Rightarrow> (string \<rightharpoonup> multer_file list) \<Rightarrow>
     multer_error + (string \<rightharpoonup> multer_file list)" where
  "take_files slots [] acc = Inr acc"
| "take_files slots ((name, f) # rest) acc =
     (if originalname f = [] then take_files slots rest acc
      else if name \<notin> set slots \<or> acc name \<noteq> None then Inl (LIMIT_UNEXPECTED_FILE name)
      else if fileSize \<le> length (buffer f) then Inl (LIMIT_FILE_SIZE name)
      else take_files slots rest (acc(name \<mapsto> [f])))"

text \<open>
  \<^verbatim>\<open>upload.fields([...])\<close>: a body that is not multipart is passed on untouched,
  with \<^verbatim>\<open>req.files\<close> undefined; a multipart body is parsed into \<^verbatim>\<open>req.body\<close>
  and \<^verbatim>\<open>req.files\<close>, or refused with an error.
\<close>

definition upload_fields :: "string list \<Rightarrow> http_request \<Rightarrow> multer_error + request" where
  "upload_fields slots h =
     (if \<not> multipart h then Inr \<lparr>body = form_fields h, files = None\<rparr>
      else case parse_failure h of
             Some e \<Rightarrow> Inl (ParserError e)
           | None \<Rightarrow>
               (case take_files slots (file_parts h) Map.empty of
                  Inl e \<Rightarrow> Inl e
                | Inr fm \<Rightarrow> Inr \<lparr>body = form_fields h, files = Some fm\<rparr>))"

section \<open>Routes\<close>

text \<open>
  What the client receives: the JSON reply of a validator or a handler, or the error page
  of Express, whose status is 500 for the errors that occur here, none of which carries a
  status of its own.
\<close>

datatype reply = Json response | ErrorPage

fun reply_status :: "reply \<Rightarrow> nat" where
  "reply_status (Json r) = status r"
| "reply_status ErrorPage = 500"

definition answered :: "response \<times> world \<Rightarrow> reply \<times> world" where
  "answered p = (Json (fst p), snd p)"

text \<open>
  The middlewares registered after \<^verbatim>\<open>upload.fields\<close>, in the order of
  registration: one that responds ends the request there, one that throws hands it to the
  error handler of Express.
\<close>

definition research_chain :: "services \<Rightarrow> request \<Rightarrow> world \<Rightarrow> reply \<times> world" where
  "research_chain env req w =
     (case validateResearchForm req of
        Respond r \<Rightarrow> (Json r, w)
      | Throw e \<Rightarrow> (ErrorPage, w)
      | Next \<Rightarrow>
          (case validateResearchFiles req of
             Respond r \<Rightarrow> (Json r, w)
           | Throw e \<Rightarrow> (ErrorPage, w)
           | Next \<Rightarrow> answered (penelitianHandler env req w)))"

definition internship_chain :: "services \<Rightarrow> request \<Rightarrow> world \<Rightarrow> reply \<times> world" where
  "internship_chain env req w =
     (case validateInternshipForm req of
        Respond r \<Rightarrow> (Json r, w)
      | Throw e \<Rightarrow> (ErrorPage, w)
      | Next \<Rightarrow>
          (case validateInternshipFiles req of
             Respond r \<Rightarrow> (Json r, w)
           | Throw e \<Rightarrow> (ErrorPage, w)
           | Next \<Rightarrow> answered (magangHandler env req w)))"

text \<open>The two routes: \<^verbatim>\<open>upload.fields\<close> first, its error going to the error page.\<close>

definition post_api_penelitian :: "services \<Rightarrow> http_request \<Rightarrow> world \<Rightarrow> reply \<times> world" where
  "post_api_penelitian env h w =
     (case upload_fields [''suratPengantarFile'', ''proposalFile'', ''ktpFile''] h of
        Inl e \<Rightarrow> (ErrorPage, w)
      | Inr req \<Rightarrow> research_chain env req w)"

definition post_api_magang :: "services \<Rightarrow> http_request \<Rightarrow> world \<Rightarrow> reply \<times> world" where
  "post_api_magang env h w =
     (case upload_fields [''suratPermohonanFile'', ''proposalFile'', ''ktpFile''] h of
        Inl e \<Rightarrow> (ErrorPage, w)
      | Inr req \<Rightarrow> internship_chain env req w)"

section \<open>The two services side by side\<close>

text \<open>
  The two routes differ in their field list, their slot list, the names of the URL fields
  and the collection written to. The service type selects among the definitions above, so
  that a property of both routes is one statement.
\<close>

datatype service = Research | Internship

fun requiredFields :: "service \<Rightarrow> string list" where
  "requiredFields Research = researchRequiredFields"
| "requiredFields Internship = internshipRequiredFields"

fun requiredFiles :: "service \<Rightarrow> string list" where
  "requiredFiles Research = researchRequiredFiles"
| "requiredFiles Internship = internshipRequiredFiles"

fun validateForm :: "service \<Rightarrow> request \<Rightarrow> middleware" where
  "validateForm Research = validateResearchForm"
| "validateForm Internship = validateInternshipForm"

fun validateFiles :: "service \<Rightarrow> request \<Rightarrow> middleware" where
  "validateFiles Research = validateResearchFiles"
| "validateFiles Internship = validateInternshipFiles"

fun handler :: "service \<Rightarrow> services \<Rightarrow> request \<Rightarrow> world \<Rightarrow> response \<times> world" where
  "handler Research = penelitianHandler"
| "handler Internship = magangHandler"

text \<open>
  \<open>submit\<close> is the part of a route that runs on the request as multer left it,
  \<open>route\<close> the whole route.
\<close>

fun submit :: "service \<Rightarrow> services \<Rightarrow> request \<Rightarrow> world \<Rightarrow> reply \<times> world" where
  "submit Research = research_chain"
| "submit Internship = internship_chain"

fun route :: "service \<Rightarrow> services \<Rightarrow> http_request \<Rightarrow> world \<Rightarrow> reply \<times> world" where
  "route Research = post_api_penelitian"
| "route Internship = post_api_magang"

text \<open>The collection each handler adds to, and the URL fields it writes, slot by slot.\<close>

fun collectionPath :: "service \<Rightarrow> string list" where
  "collectionPath Research = [''pelayanan'', ''penelitian'', ''data'']"
| "collectionPath Internship = [''pelayanan'', ''magang'', ''magang'']"

fun urlFields :: "service \<Rightarrow> string list" where
  "urlFields Research = [''suratPengantarUrl'', ''proposalUrl'', ''ktpUrl'']"
| "urlFields Internship = [''suratPermohonanUrl'', ''proposalUrl'', ''ktpUrl'']"

section \<open>Vocabulary of the properties\<close>

text \<open>
  The files of a slot, none when the slot was not sent or no file mapping exists. A slot
  is missing when it is absent or empty, has a bad type when its first file declares a type
  outside the allowed ones, and passes otherwise.
\<close>

definition slot_files :: "request \<Rightarrow> string \<Rightarrow> multer_file list option" where
  "slot_files req s = (case files req of None \<Rightarrow> None | Some fm \<Rightarrow> fm s)"

definition slot_missing :: "request \<Rightarrow> string \<Rightarrow> bool" where
  "slot_missing req s = (case slot_files req s of None \<Rightarrow> True | Some fs \<Rightarrow> fs = [])"

definition slot_bad_type :: "request \<Rightarrow> string \<Rightarrow> bool" where
  "slot_bad_type req s =
     (case slot_files req s of
        Some (f # _) \<Rightarrow> mimetype f \<notin> set allowedMimeTypes
      | _ \<Rightarrow> False)"

definition slot_passes :: "request \<Rightarrow> string \<Rightarrow> bool" where
  "slot_passes req s =
     (case slot_files req s of
        Some (f # _) \<Rightarrow> mimetype f \<in> set allowedMimeTypes
      | _ \<Rightarrow> False)"

definition fields_complete :: "service \<Rightarrow> request \<Rightarrow> bool" where
  "fields_complete svc req = list_all (\<lambda>f. \<not> falsy (body req f)) (requiredFields svc)"

definition files_valid :: "service \<Rightarrow> request \<Rightarrow> bool" where
  "files_valid svc req = list_all (slot_passes req) (requiredFiles svc)"

text \<open>The first file of a slot, the one the validator reads and the handler uploads.\<close>

definition slot_file :: "request \<Rightarrow> string \<Rightarrow> multer_file option" where
  "slot_file req s = (case slot_files req s of Some (f # _) \<Rightarrow> Some f | _ \<Rightarrow> None)"

text \<open>
  The object that the upload drawing the \<open>i\<close>-th identifier stores for a file, and the
  objects stored when the first files of a list of slots are uploaded one after the other,
  the first upload drawing the \<open>i\<close>-th identifier.
\<close>

definition upload_of :: "services \<Rightarrow> nat \<Rightarrow> multer_file \<Rightarrow> stored_object" where
  "upload_of env i f =
     \<lparr>object_name = uuidv4 env i @ ''_'' @ originalname f, contentType = mimetype f,
      content = buffer f\<rparr>"

fun slot_uploads :: "services \<Rightarrow> nat \<Rightarrow> request \<Rightarrow> string list \<Rightarrow> stored_object list" where
  "slot_uploads env i req [] = []"
| "slot_uploads env i req (s # ss) =
     (case slot_file req s of
        Some f \<Rightarrow> upload_of env i f # slot_uploads env (Suc i) req ss
      | None \<Rightarrow> slot_uploads env i req ss)"

definition url_of :: "services \<Rightarrow> stored_object \<Rightarrow> fsvalue" where
  "url_of env obj = FString (publicUrl (bucket_name env) (object_name obj))"

text \<open>
  How many of the next three write streams finish before one emits an error, and whether
  the next three streams and the next \<^verbatim>\<open>add\<close> all succeed.
\<close>

definition uploads_before_failure :: "services \<Rightarrow> world \<Rightarrow> nat" where
  "uploads_before_failure env w =
     length (takeWhile (\<lambda>n. stream_error env n = None)
               [streams_opened w, streams_opened w + 1, streams_opened w + 2])"

definition services_succeed :: "services \<Rightarrow> world \<Rightarrow> bool" where
  "services_succeed env w =
     (stream_error env (streams_opened w) = None \<and>
      stream_error env (streams_opened w + 1) = None \<and>
      stream_error env (streams_opened w + 2) = None \<and>
      add_error env (adds_called w) = None)"

text \<open>
  A trace is sequential when no stream is opened and no \<^verbatim>\<open>add\<close> is called while a
  stream is still open, and a stream that finishes or fails is the open one. The first
  argument is the stream that is open, if any.
\<close>

fun sequential :: "string option \<Rightarrow> event list \<Rightarrow> bool" where
  "sequential p [] = (p = None)"
| "sequential p (StreamOpened n # es) = (p = None \<and> sequential (Some n) es)"
| "sequential p (StreamFinished n # es) = (p = Some n \<and> sequential None es)"
| "sequential p (StreamErrored n # es) = (p = Some n \<and> sequential None es)"
| "sequential p (AddCalled c # es) = (p = None \<and> sequential None es)"
| "sequential p (AddResolved c # es) = (p = None \<and> sequential None es)"
| "sequential p (AddRejected c # es) = (p = None \<and> sequential None es)"

text \<open>The streams that have finished before the first \<^verbatim>\<open>add\<close> is called.\<close>

fun finished_before_add :: "event list \<Rightarrow> string list" where
  "finished_before_add [] = []"
| "finished_before_add (StreamFinished n # es) = n # finished_before_add es"
| "finished_before_add (AddCalled c # es) = []"
| "finished_before_add (e # es) = finished_before_add es"

fun opened :: "event list \<Rightarrow> string list" where
  "opened [] = []"
| "opened (StreamOpened n # es) = n # opened es"
| "opened (e # es) = opened es"

definition add_called :: "event list \<Rightarrow> bool" where
  "add_called es = list_ex (\<lambda>e. case e of AddCalled c \<Rightarrow> True | _ \<Rightarrow> False) es"


definition pdf_in_slot :: "request \<Rightarrow> string \<Rightarrow> bool" where
  "pdf_in_slot req s =
     (case slot_files req s of Some (f # _) \<Rightarrow> mimetype f = ''application/pdf'' | _ \<Rightarrow> False)"

text \<open>File signatures: what the first bytes of a PDF, a JPEG and a PNG are.\<close>

definition is_pdf :: "byte list \<Rightarrow> bool" where
  "is_pdf bs = (take 4 bs = [0x25, 0x50, 0x44, 0x46])"

definition is_jpeg :: "byte list \<Rightarrow> bool" where
  "is_jpeg bs = (take 3 bs = [0xFF, 0xD8, 0xFF])"

definition is_png :: "byte list \<Rightarrow> bool" where
  "is_png bs = (take 8 bs = [0x89, 0x50, 0x4E, 0x47, 0x0D, 0x0A, 0x1A, 0x0A])"

text \<open>A request with the bytes of every file rewritten by \<open>g\<close>, nothing else changed.\<close>

definition with_bytes :: "(byte list \<Rightarrow> byte list) \<Rightarrow> request \<Rightarrow> request" where
  "with_bytes g req =
     req\<lparr>files :=
           map_option (\<lambda>fm s. map_option (map (\<lambda>f. f\<lparr>buffer := g (buffer f)\<rparr>)) (fm s))
             (files req)\<rparr>"

section \<open>Sample requests and environments\<close>

definition pdf_bytes :: "byte list" where
  "pdf_bytes = [0x25, 0x50, 0x44, 0x46, 0x2D, 0x31, 0x2E, 0x34]"

definition exe_bytes :: "byte list" where
  "exe_bytes = [0x4D, 0x5A, 0x90, 0x00]"

definition pdf_named :: "string \<Rightarrow> multer_file" where
  "pdf_named n = \<lparr>originalname = n, mimetype = ''application/pdf'', buffer = pdf_bytes\<rparr>"

definition research_files :: "string \<rightharpoonup> multer_file list" where
  "research_files =
     map_of [(''suratPengantarFile'', [pdf_named ''surat.pdf'']),
             (''proposalFile'', [pdf_named ''proposal.pdf'']),
             (''ktpFile'', [pdf_named ''ktp.pdf''])]"

definition fourteen_fields :: "(string \<times> string) list" where
  "fourteen_fields =
     [(''name'', ''Izin Penelitian''), (''researcherName'', ''Sari''),
      (''address'', ''Jl. Merdeka 1''), (''inputValue'', ''0812''),
      (''institution'', ''UGM''), (''occupation'', ''Mahasiswa''),
      (''judulPenelitian'', ''Kualitas Air''), (''researchField'', ''Lingkungan''),
      (''tujuanPenelitian'', ''Skripsi''), (''supervisorName'', ''Dr. Budi''),
      (''teamMembers'', ''1''), (''statusPenelitian'', ''Baru''),
      (''researchPeriod'', ''3 bulan''), (''researchLocation'', ''Sleman'')]"


text \<open>The same with \<^verbatim>\<open>letterNumber\<close>.\<close>

definition research_request :: request where
  "research_request =
     \<lparr>body = map_of ((''letterNumber'', ''070/123'') # fourteen_fields),
      files = Some research_files\<rparr>"

text \<open>The same, the proposal being a program declared as a PDF.\<close>

definition disguised_request :: request where
  "disguised_request =
     research_request\<lparr>files := Some (research_files
       (''proposalFile'' \<mapsto>
          [\<lparr>originalname = ''setup.exe'', mimetype = ''application/pdf'',
            buffer = exe_bytes\<rparr>]))\<rparr>"

text \<open>The same, the client sending a \<^verbatim>\<open>timestamp\<close> field of its own.\<close>

definition backdated_request :: request where
  "backdated_request =
     research_request\<lparr>body := (body research_request)(''timestamp'' \<mapsto> ''1999'')\<rparr>"

text \<open>The same as \<open>research_request\<close>, without a name and without a research field.\<close>

definition incomplete_request :: request where
  "incomplete_request =
     research_request\<lparr>body := (body research_request)
       (''name'' := None, ''researchField'' \<mapsto> [])\<rparr>"

text \<open>
  The same as \<open>research_request\<close>, the proposal declared as a program and the identity card
  not sent.
\<close>

definition bad_files_request :: request where
  "bad_files_request =
     research_request\<lparr>files := Some (research_files
       (''proposalFile'' \<mapsto>
          [\<lparr>originalname = ''setup.exe'', mimetype = ''application/x-msdownload'',
            buffer = exe_bytes\<rparr>],
        ''ktpFile'' := None))\<rparr>"

definition sample_ids :: "nat \<Rightarrow> string" where
  "sample_ids n = ''id-'' @ replicate n (CHR ''x'')"

text \<open>An environment in which nothing fails, and one whose second stream fails.\<close>

definition healthy :: services where
  "healthy = \<lparr>bucket_name = ''govservice-2024.appspot.com'', uuidv4 = sample_ids,
              stream_error = (\<lambda>n. None), add_error = (\<lambda>n. None),
              server_time = (\<lambda>n. 1000 + n)\<rparr>"

definition second_stream_fails :: services where
  "second_stream_fails =
     healthy\<lparr>stream_error := (\<lambda>n. if n = 1 then Some ''ECONNRESET'' else None)\<rparr>"

definition empty_world :: world where
  "empty_world = \<lparr>objects = [], documents = [], uuids_drawn = 0, streams_opened = 0,
                  adds_called = 0, trace = []\<rparr>"

subsection \<open>Submissions as they arrive\<close>

text \<open>
  The multipart form that \<^verbatim>\<open>upload.fields\<close> turns into \<open>research_request\<close>: the
  fifteen fields and one PDF in each slot.
\<close>

definition research_parts :: "(string \<times> multer_file) list" where
  "research_parts =
     [(''suratPengantarFile'', pdf_named ''surat.pdf''),
      (''proposalFile'', pdf_named ''proposal.pdf''),
      (''ktpFile'', pdf_named ''ktp.pdf'')]"

definition research_form :: http_request where
  "research_form =
     \<lparr>multipart = True,
      form_fields = map_of ((''letterNumber'', ''070/123'') # fourteen_fields),
      file_parts = research_parts, parse_failure = None\<rparr>"


text \<open>The forms of \<open>incomplete_request\<close> and of \<open>bad_files_request\<close>.\<close>

definition incomplete_form :: http_request where
  "incomplete_form =
     research_form\<lparr>form_fields := (form_fields research_form)
       (''name'' := None, ''researchField'' \<mapsto> [])\<rparr>"

definition bad_files_form :: http_request where
  "bad_files_form =
     research_form\<lparr>file_parts :=
       [(''suratPengantarFile'', pdf_named ''surat.pdf''),
        (''proposalFile'',
           \<lparr>originalname = ''setup.exe'', mimetype = ''application/x-msdownload'',
            buffer = exe_bytes\<rparr>)]\<rparr>"

text \<open>
  A PDF of eleven mebibytes and eight bytes, and the complete form with this file as the
  proposal; the same form without a name.
\<close>

definition oversize_bytes :: "byte list" where
  "oversize_bytes = pdf_bytes @ replicate (11 * 1024 * 1024) 0x20"

definition oversize_pdf :: multer_file where
  "oversize_pdf =
     \<lparr>originalname = ''scan.pdf'', mimetype = ''application/pdf'', buffer = oversize_bytes\<rparr>"

definition oversize_parts :: "(string \<times> multer_file) list" where
  "oversize_parts =
     [(''suratPengantarFile'', pdf_named ''surat.pdf''),
      (''proposalFile'', oversize_pdf),
      (''ktpFile'', pdf_named ''ktp.pdf'')]"

definition oversize_form :: http_request where
  "oversize_form = research_form\<lparr>file_parts := oversize_parts\<rparr>"

definition oversize_incomplete_form :: http_request where
  "oversize_incomplete_form =
     oversize_form\<lparr>form_fields := (form_fields research_form)(''name'' := None)\<rparr>"

text \<open>
  The fifteen fields sent as a JSON body, which the global body parser reads and
  \<^verbatim>\<open>upload.fields\<close> passes on, and the request that reaches the validators.
\<close>

definition json_post :: http_request where
  "json_post =
     \<lparr>multipart = False,
      form_fields = map_of ((''letterNumber'', ''070/123'') # fourteen_fields),
      file_parts = [], parse_failure = None\<rparr>"

definition json_request :: request where
  "json_request =
     \<lparr>body = map_of ((''letterNumber'', ''070/123'') # fourteen_fields), files = None\<rparr>"

section \<open>The validators\<close>

lemma requireFields_Next_iff:
  "(requireFields fs req = Next) = list_all (\<lambda>f. \<not> falsy (body req f)) fs"
  by (induction fs) auto


lemma requireFields_status:
  "requireFields fs req = Respond r \<Longrightarrow> status r = 400"
  by (induction fs) (auto split: if_splits)

lemma requireFields_no_throw:
  "requireFields fs req \<noteq> Throw e"
  by (induction fs) auto

lemma slot_files_Some:
  "(slot_files req s = Some x) = (\<exists>fm. files req = Some fm \<and> fm s = Some x)"
  by (simp add: slot_files_def split: option.splits)

lemma slot_cases:
  "slot_passes req s \<or> slot_missing req s \<or> slot_bad_type req s"
  by (auto simp: slot_passes_def slot_missing_def slot_bad_type_def split: option.splits list.splits)

lemma slot_passes_file:
  "slot_passes req s =
     (\<exists>f fs. slot_files req s = Some (f # fs) \<and> mimetype f \<in> set allowedMimeTypes)"
  by (auto simp: slot_passes_def split: option.splits list.splits)

lemma requireFiles_Next_iff:
  "(requireFiles ss req = Next) = list_all (slot_passes req) ss"
  by (induction ss)
     (auto simp: slot_passes_def slot_files_def split: option.splits list.splits)

lemma requireFiles_first_missing:
  assumes "files req \<noteq> None" and "\<forall>t\<in>set pre. slot_passes req t" and "slot_missing req s"
  shows "requireFiles (pre @ s # post) req =
           Respond \<lparr>status = 400, message = ''File '' @ s @ '' is required''\<rparr>"
  using assms
  by (induction pre)
     (auto simp: slot_passes_def slot_missing_def slot_files_def
        split: option.splits list.splits)

lemma requireFiles_first_bad_type:
  assumes "\<forall>t\<in>set pre. slot_passes req t" and "slot_bad_type req s"
  shows "requireFiles (pre @ s # post) req =
           Respond \<lparr>status = 400, message = ''File '' @ s @ '' must be a PDF, JPEG, or PNG''\<rparr>"
  using assms
  by (induction pre)
     (auto simp: slot_passes_def slot_bad_type_def slot_files_def
        split: option.splits list.splits)

lemma requireFiles_status:
  "requireFiles ss req = Respond r \<Longrightarrow> status r = 400"
  by (induction ss) (auto split: option.splits list.splits if_splits)

lemma requireFiles_Throw_iff:
  "(requireFiles ss req = Throw e) = (ss \<noteq> [] \<and> files req = None \<and> e = TypeError)"
  by (induction ss) (auto split: option.splits list.splits)

lemma validateForm_requireFields:
  "validateForm svc req = requireFields (requiredFields svc) req"
  by (cases svc) (simp_all add: validateResearchForm_def validateInternshipForm_def)

lemma validateFiles_requireFiles:
  "validateFiles svc req = requireFiles (requiredFiles svc) req"
  by (cases svc) (simp_all add: validateResearchFiles_def validateInternshipFiles_def)

lemma requiredFiles_nonempty: "requiredFiles svc \<noteq> []"
  by (cases svc) (simp_all add: researchRequiredFiles_def internshipRequiredFiles_def)

lemma submit_unfold:
  "submit svc env req w =
     (case validateForm svc req of
        Respond r \<Rightarrow> (Json r, w)
      | Throw e \<Rightarrow> (ErrorPage, w)
      | Next \<Rightarrow>
          (case validateFiles svc req of
             Respond r \<Rightarrow> (Json r, w)
           | Throw e \<Rightarrow> (ErrorPage, w)
           | Next \<Rightarrow> answered (handler svc env req w)))"
  by (cases svc)
     (simp_all add: research_chain_def internship_chain_def split: middleware.splits)

lemma route_unfold:
  "route svc env h w =
     (case upload_fields (requiredFiles svc) h of
        Inl e \<Rightarrow> (ErrorPage, w)
      | Inr req \<Rightarrow> submit svc env req w)"
  by (cases svc)
     (simp_all add: post_api_penelitian_def post_api_magang_def researchRequiredFiles_def
        internshipRequiredFiles_def split: sum.splits)

lemma answered_simps [simp]:
  "fst (answered p) = Json (fst p)" "snd (answered p) = snd p"
  by (simp_all add: answered_def)

section \<open>The handlers\<close>

lemma resolve_sentinel_field [simp]:
  "resolve_sentinel t (field_value req k) = field_value req k"
  by (simp add: field_value_def split: option.splits)

lemma resolve_sentinel_url [simp]:
  "resolve_sentinel t (k, url_of env obj) = (k, url_of env obj)"
  by (simp add: url_of_def)

lemma uploadSlot_file:
  "slot_files req s = Some (f # fs) \<Longrightarrow>
   uploadSlot env req s = await (uploadFileToFirebase env f) (\<lambda>url. resolved (FString url))"
  by (auto simp: uploadSlot_def slot_files_def split: option.splits)

lemma pipeline_run:
  assumes "slot_files req s0 = Some (f0 # fs0)"
    and "slot_files req s1 = Some (f1 # fs1)"
    and "slot_files req s2 = Some (f2 # fs2)"
  shows "try_catch
           (await (uploadSlot env req s0) (\<lambda>u0.
            await (uploadSlot env req s1) (\<lambda>u1.
            await (uploadSlot env req s2) (\<lambda>u2.
            await (collection_add env path (mk u0 u1 u2)) (\<lambda>_. resolved ok)))))
           (\<lambda>err. ko) w =
         (let k = streams_opened w; u = uuids_drawn w; a = adds_called w;
              o0 = upload_of env u f0; o1 = upload_of env (Suc u) f1;
              o2 = upload_of env (Suc (Suc u)) f2;
              fin = (\<lambda>obj. [StreamOpened (object_name obj), StreamFinished (object_name obj)]);
              err = (\<lambda>obj. [StreamOpened (object_name obj), StreamErrored (object_name obj)])
          in case stream_error env k of
               Some e \<Rightarrow>
                 (ko, w\<lparr>uuids_drawn := Suc u, streams_opened := Suc k,
                         trace := trace w @ err o0\<rparr>)
             | None \<Rightarrow>
            (case stream_error env (Suc k) of
               Some e \<Rightarrow>
                 (ko, w\<lparr>uuids_drawn := Suc (Suc u), streams_opened := Suc (Suc k),
                         objects := objects w @ [o0], trace := trace w @ fin o0 @ err o1\<rparr>)
             | None \<Rightarrow>
            (case stream_error env (Suc (Suc k)) of
               Some e \<Rightarrow>
                 (ko, w\<lparr>uuids_drawn := Suc (Suc (Suc u)), streams_opened := Suc (Suc (Suc k)),
                         objects := objects w @ [o0, o1],
                         trace := trace w @ fin o0 @ fin o1 @ err o2\<rparr>)
             | None \<Rightarrow>
            (case add_error env a of
               Some e \<Rightarrow>
                 (ko, w\<lparr>uuids_drawn := Suc (Suc (Suc u)), streams_opened := Suc (Suc (Suc k)),
                         adds_called := Suc a, objects := objects w @ [o0, o1, o2],
                         trace := trace w @ fin o0 @ fin o1 @ fin o2
                                    @ [AddCalled path, AddRejected path]\<rparr>)
             | None \<Rightarrow>
                 (ok, w\<lparr>uuids_drawn := Suc (Suc (Suc u)), streams_opened := Suc (Suc (Suc k)),
                         adds_called := Suc a, objects := objects w @ [o0, o1, o2],
                         documents := documents w @
                           [(path, map (resolve_sentinel (server_time env a))
                                     (mk (url_of env o0) (url_of env o1) (url_of env o2)))],
                         trace := trace w @ fin o0 @ fin o1 @ fin o2
                                    @ [AddCalled path, AddResolved path]\<rparr>)))))"
  by (simp add: uploadSlot_file [OF assms(1)] uploadSlot_file [OF assms(2)]
        uploadSlot_file [OF assms(3)] try_catch_def await_def uploadFileToFirebase_def
        collection_add_def resolved_def Let_def upload_of_def url_of_def split: option.splits)

lemma files_valid_research:
  assumes "files_valid Research req"
  obtains f0 fs0 f1 fs1 f2 fs2 where
    "slot_files req ''suratPengantarFile'' = Some (f0 # fs0)"
    "slot_files req ''proposalFile'' = Some (f1 # fs1)"
    "slot_files req ''ktpFile'' = Some (f2 # fs2)"
  using assms by (auto simp: files_valid_def researchRequiredFiles_def slot_passes_file)

lemma files_valid_internship:
  assumes "files_valid Internship req"
  obtains f0 fs0 f1 fs1 f2 fs2 where
    "slot_files req ''suratPermohonanFile'' = Some (f0 # fs0)"
    "slot_files req ''proposalFile'' = Some (f1 # fs1)"
    "slot_files req ''ktpFile'' = Some (f2 # fs2)"
  using assms by (auto simp: files_valid_def internshipRequiredFiles_def slot_passes_file)

text \<open>
  The outcome of a handler on a request whose three slots are filled, in terms of the
  service: which of the next three streams fails first, if any, and whether the
  \<^verbatim>\<open>add\<close> fails.
\<close>

lemma handler_run:
  assumes "files_valid svc req"
  shows "handler svc env req w =
    (let k = streams_opened w; a = adds_called w;
         os = slot_uploads env (uuids_drawn w) req (requiredFiles svc);
         fin = (\<lambda>obj. [StreamOpened (object_name obj), StreamFinished (object_name obj)]);
         err = (\<lambda>obj. [StreamOpened (object_name obj), StreamErrored (object_name obj)]);
         ko = \<lparr>status = 500, message = ''Terjadi kesalahan saat menyimpan data''\<rparr>;
         m = uploads_before_failure env w;
         w1 = w\<lparr>uuids_drawn := uuids_drawn w + min 3 (Suc m),
                streams_opened := k + min 3 (Suc m),
                objects := objects w @ take m os\<rparr>
     in if m < 3 then
          (ko, w1\<lparr>trace := trace w @ concat (map fin (take m os)) @ concat (map err (take 1 (drop m os)))\<rparr>)
        else
          (case add_error env a of
             Some e \<Rightarrow>
               (ko, w1\<lparr>adds_called := Suc a,
                       trace := trace w @ concat (map fin os)
                                  @ [AddCalled (collectionPath svc), AddRejected (collectionPath svc)]\<rparr>)
           | None \<Rightarrow>
               (\<lparr>status = 200, message = ''Data berhasil disimpan''\<rparr>,
                w1\<lparr>adds_called := Suc a,
                    documents := documents w @
                      [(collectionPath svc,
                        map (field_value req) (requiredFields svc)
                        @ zip (urlFields svc) (map (url_of env) os)
                        @ [(''timestamp'', FTimestamp (server_time env a))])],
                    trace := trace w @ concat (map fin os)
                               @ [AddCalled (collectionPath svc), AddResolved (collectionPath svc)]\<rparr>)))"
proof (cases svc)
  case Research
  then obtain f0 fs0 f1 fs1 f2 fs2 where
    fs: "slot_files req ''suratPengantarFile'' = Some (f0 # fs0)"
      "slot_files req ''proposalFile'' = Some (f1 # fs1)"
      "slot_files req ''ktpFile'' = Some (f2 # fs2)"
    using assms files_valid_research by blast
  show ?thesis
    using fs
    by (simp add: Research penelitianHandler_def pipeline_run [OF fs] Let_def
          uploads_before_failure_def researchRequiredFiles_def researchRequiredFields_def
          slot_file_def split: option.splits)
next
  case Internship
  then obtain f0 fs0 f1 fs1 f2 fs2 where
    fs: "slot_files req ''suratPermohonanFile'' = Some (f0 # fs0)"
      "slot_files req ''proposalFile'' = Some (f1 # fs1)"
      "slot_files req ''ktpFile'' = Some (f2 # fs2)"
    using assms files_valid_internship by blast
  show ?thesis
    using fs
    by (simp add: Internship magangHandler_def pipeline_run [OF fs] Let_def
          uploads_before_failure_def internshipRequiredFiles_def internshipRequiredFields_def
          slot_file_def split: option.splits)
qed

lemma uploads_before_failure_cases:
  "uploads_before_failure env w = 0 \<or> uploads_before_failure env w = 1 \<or>
   uploads_before_failure env w = 2 \<or> uploads_before_failure env w = 3"
  by (simp add: uploads_before_failure_def)

lemma services_succeed_iff:
  "services_succeed env w =
     (uploads_before_failure env w = 3 \<and> add_error env (adds_called w) = None)"
  by (auto simp: services_succeed_def uploads_before_failure_def split: if_splits)

lemma slot_uploads_valid:
  assumes "files_valid svc req"
  obtains o0 o1 o2 where "slot_uploads env u req (requiredFiles svc) = [o0, o1, o2]"
proof (cases svc)
  case Research
  then show ?thesis
    using assms that
    by (auto simp: files_valid_def researchRequiredFiles_def slot_passes_file slot_file_def)
next
  case Internship
  then show ?thesis
    using assms that
    by (auto simp: files_valid_def internshipRequiredFiles_def slot_passes_file slot_file_def)
qed

lemma handler_success:
  assumes "files_valid svc req" and "services_succeed env w"
  shows "handler svc env req w =
           (\<lparr>status = 200, message = ''Data berhasil disimpan''\<rparr>,
            w\<lparr>uuids_drawn := uuids_drawn w + 3, streams_opened := streams_opened w + 3,
              adds_called := Suc (adds_called w),
              objects := objects w @ slot_uploads env (uuids_drawn w) req (requiredFiles svc),
              documents := documents w @
                [(collectionPath svc,
                  map (field_value req) (requiredFields svc)
                  @ zip (urlFields svc)
                      (map (url_of env) (slot_uploads env (uuids_drawn w) req (requiredFiles svc)))
                  @ [(''timestamp'', FTimestamp (server_time env (adds_called w)))])],
              trace := trace w @
                concat (map (\<lambda>obj. [StreamOpened (object_name obj), StreamFinished (object_name obj)])
                          (slot_uploads env (uuids_drawn w) req (requiredFiles svc)))
                @ [AddCalled (collectionPath svc), AddResolved (collectionPath svc)]\<rparr>)"
proof -
  obtain o0 o1 o2 where "slot_uploads env (uuids_drawn w) req (requiredFiles svc) = [o0, o1, o2]"
    using slot_uploads_valid [OF assms(1)] by blast
  then show ?thesis
    using assms(2) by (simp add: handler_run [OF assms(1)] services_succeed_iff Let_def)
qed

lemma handler_failure:
  assumes "files_valid svc req" and "\<not> services_succeed env w"
  shows "fst (handler svc env req w) =
           \<lparr>status = 500, message = ''Terjadi kesalahan saat menyimpan data''\<rparr> \<and>
         documents (snd (handler svc env req w)) = documents w \<and>
         objects (snd (handler svc env req w)) =
           objects w @ take (uploads_before_failure env w)
                         (slot_uploads env (uuids_drawn w) req (requiredFiles svc)) \<and>
         adds_called (snd (handler svc env req w)) =
           (if uploads_before_failure env w < 3 then adds_called w else Suc (adds_called w))"
  using assms(2) uploads_before_failure_cases [of env w]
  by (auto simp: handler_run [OF assms(1)] services_succeed_iff Let_def)

lemma handler_trace:
  assumes "files_valid svc req"
  shows "\<exists>new. trace (snd (handler svc env req w)) = trace w @ new \<and>
           sequential None new \<and>
           opened new = take (Suc (uploads_before_failure env w))
                          (map object_name (slot_uploads env (uuids_drawn w) req (requiredFiles svc))) \<and>
           add_called new = (uploads_before_failure env w = 3) \<and>
           (add_called new \<longrightarrow>
              finished_before_add new =
                map object_name (slot_uploads env (uuids_drawn w) req (requiredFiles svc)))"
proof -
  obtain o0 o1 o2 where "slot_uploads env (uuids_drawn w) req (requiredFiles svc) = [o0, o1, o2]"
    using slot_uploads_valid [OF assms(1)] by blast
  then show ?thesis
    using uploads_before_failure_cases [of env w]
    by (auto simp: handler_run [OF assms(1)] Let_def add_called_def split: option.splits)
qed

lemmas sample_defs =
  research_request_def fourteen_fields_def research_files_def pdf_named_def healthy_def
  empty_world_def sample_ids_def pdf_bytes_def

lemmas validator_defs =
  validateResearchForm_def validateInternshipForm_def validateResearchFiles_def
  validateInternshipFiles_def researchRequiredFields_def internshipRequiredFields_def
  researchRequiredFiles_def internshipRequiredFiles_def allowedMimeTypes_def falsy_def
  fields_complete_def files_valid_def slot_passes_def slot_files_def

lemma validated_iff:
  "(validateForm svc req = Next \<and> validateFiles svc req = Next) =
     (fields_complete svc req \<and> files_valid svc req)"
  by (simp add: validateForm_requireFields validateFiles_requireFiles requireFields_Next_iff
        requireFiles_Next_iff fields_complete_def files_valid_def)

lemma submit_validated:
  assumes "fields_complete svc req" and "files_valid svc req"
  shows "submit svc env req w = answered (handler svc env req w)"
  using assms validated_iff [of svc req] by (simp add: submit_unfold)

lemma map_of_fields:
  "map_of (map (field_value req) ks) k =
     (if k \<in> set ks then Some (snd (field_value req k)) else None)"
  by (induction ks) (auto simp: field_value_def)

section \<open>The written document\<close>

lemma fields_complete_value:
  assumes "fields_complete svc req" and "f \<in> set (requiredFields svc)"
  obtains v where "body req f = Some v" "v \<noteq> []"
  using assms by (auto simp: fields_complete_def list_all_iff falsy_def split: option.splits)

lemma doc_lookup_field:
  "f \<in> set ks \<Longrightarrow> map_of (map (field_value req) ks @ rest) f = Some (snd (field_value req f))"
  by (simp add: map_of_fields map_add_def)

lemma doc_lookup_other:
  "k \<notin> set ks \<Longrightarrow> map_of (map (field_value req) ks @ rest) k = map_of rest k"
  by (simp add: map_of_fields map_add_def)

lemma url_fields_fresh:
  "set (urlFields svc) \<inter> set (requiredFields svc) = {}"
  "''timestamp'' \<notin> set (requiredFields svc)"
  "''timestamp'' \<notin> set (urlFields svc)"
  by (cases svc; simp add: researchRequiredFields_def internshipRequiredFields_def)+

lemma doc_lookup_urls:
  "map (map_of (map (field_value req) (requiredFields svc)
                 @ zip (urlFields svc) [u0, u1, u2] @ [(''timestamp'', t)]))
     (urlFields svc) = [Some u0, Some u1, Some u2]"
proof -
  have "map (map_of (map (field_value req) (requiredFields svc)
                 @ zip (urlFields svc) [u0, u1, u2] @ [(''timestamp'', t)])) (urlFields svc)
        = map (map_of (zip (urlFields svc) [u0, u1, u2] @ [(''timestamp'', t)])) (urlFields svc)"
    using url_fields_fresh(1) [of svc] by (intro map_cong refl doc_lookup_other) blast
  also have "\<dots> = [Some u0, Some u1, Some u2]"
    by (cases svc) simp_all
  finally show ?thesis .
qed

lemma doc_lookup_timestamp:
  "map_of (map (field_value req) (requiredFields svc)
            @ zip (urlFields svc) [u0, u1, u2] @ [(''timestamp'', t)]) ''timestamp'' = Some t"
proof -
  have "map_of (map (field_value req) (requiredFields svc)
            @ zip (urlFields svc) [u0, u1, u2] @ [(''timestamp'', t)]) ''timestamp''
        = map_of (zip (urlFields svc) [u0, u1, u2] @ [(''timestamp'', t)]) ''timestamp''"
    by (rule doc_lookup_other) (rule url_fields_fresh)
  also have "\<dots> = Some t"
    by (cases svc) simp_all
  finally show ?thesis .
qed

lemma uploadSlot_not_null:
  assumes "slot_files req s = Some (f # fs)"
  shows "fst (uploadSlot env req s w) \<noteq> Inr FNull"
  by (simp add: uploadSlot_file [OF assms] await_def uploadFileToFirebase_def Let_def
        resolved_def split: option.splits)

section \<open>Requests that differ in file bytes only\<close>

lemma requireFields_with_bytes:
  "requireFields ks (with_bytes g req) = requireFields ks req"
  by (induction ks) (simp_all add: with_bytes_def)

lemma requireFiles_with_bytes:
  "requireFiles ss (with_bytes g req) = requireFiles ss req"
  by (induction ss) (auto simp: with_bytes_def split: option.splits list.splits)

lemma field_value_with_bytes:
  "field_value (with_bytes g req) = field_value req"
  by (simp add: fun_eq_iff field_value_def with_bytes_def)

lemma slot_uploads_with_bytes:
  "slot_uploads env u (with_bytes g req) ss =
     map (\<lambda>obj. obj\<lparr>content := g (content obj)\<rparr>) (slot_uploads env u req ss)"
  by (induction ss arbitrary: u)
     (auto simp: slot_file_def slot_files_def with_bytes_def upload_of_def
        split: option.splits list.splits)

lemma url_of_content [simp]:
  "url_of env (obj\<lparr>content := x\<rparr>) = url_of env obj"
  by (simp add: url_of_def)

lemma handler_with_bytes:
  assumes "files_valid svc req"
  shows "fst (handler svc env (with_bytes g req) w) = fst (handler svc env req w) \<and>
         documents (snd (handler svc env (with_bytes g req) w)) =
           documents (snd (handler svc env req w)) \<and>
         map object_name (objects (snd (handler svc env (with_bytes g req) w))) =
           map object_name (objects (snd (handler svc env req w))) \<and>
         map contentType (objects (snd (handler svc env (with_bytes g req) w))) =
           map contentType (objects (snd (handler svc env req w))) \<and>
         map content (objects (snd (handler svc env (with_bytes g req) w))) =
           map content (objects w) @
           map (g \<circ> content) (drop (length (objects w)) (objects (snd (handler svc env req w))))"
proof -
  have valid': "files_valid svc (with_bytes g req)"
    using assms requireFiles_with_bytes [of "requiredFiles svc" g req]
    by (simp add: files_valid_def requireFiles_Next_iff [symmetric])
  show ?thesis
    by (simp add: handler_run [OF assms] handler_run [OF valid'] Let_def
          slot_uploads_with_bytes field_value_with_bytes take_map drop_map o_def
          split: option.splits)
qed

lemma submit_with_bytes:
  "fst (submit svc env (with_bytes g req) w) = fst (submit svc env req w) \<and>
   documents (snd (submit svc env (with_bytes g req) w)) =
     documents (snd (submit svc env req w)) \<and>
   map object_name (objects (snd (submit svc env (with_bytes g req) w))) =
     map object_name (objects (snd (submit svc env req w))) \<and>
   map contentType (objects (snd (submit svc env (with_bytes g req) w))) =
     map contentType (objects (snd (submit svc env req w))) \<and>
   map content (objects (snd (submit svc env (with_bytes g req) w))) =
     map content (objects w) @
     map (g \<circ> content) (drop (length (objects w)) (objects (snd (submit svc env req w))))"
proof -
  have form: "validateForm svc (with_bytes g req) = validateForm svc req"
    by (simp only: validateForm_requireFields requireFields_with_bytes)
  have files: "validateFiles svc (with_bytes g req) = validateFiles svc req"
    by (simp only: validateFiles_requireFiles requireFiles_with_bytes)
  show ?thesis
  proof (cases "validateForm svc req = Next \<and> validateFiles svc req = Next")
    case True
    then have valid: "files_valid svc req"
      using validated_iff by blast
    show ?thesis
      using True handler_with_bytes [OF valid, of env g w]
      by (simp only: submit_unfold form files middleware.case answered_simps reply.inject)
  next
    case False
    then show ?thesis
      by (auto simp only: submit_unfold form files fst_conv snd_conv drop_all order_refl
            list.map append_Nil2 split: middleware.splits)
  qed
qed

section \<open>The sample requests\<close>

lemma research_request_complete: "fields_complete Research research_request"
  by (simp add: sample_defs validator_defs)

lemma research_request_files: "files_valid Research research_request"
  by (simp add: sample_defs validator_defs)

lemma incomplete_request_fields: "\<not> fields_complete Research incomplete_request"
  by (simp add: incomplete_request_def sample_defs validator_defs)

lemma bad_files_request_files: "\<not> files_valid Research bad_files_request"
  by (simp add: bad_files_request_def sample_defs validator_defs)

lemma healthy_succeeds: "services_succeed healthy empty_world"
  by (simp add: services_succeed_def healthy_def)

lemma research_request_uploads:
  "slot_uploads env 0 research_request researchRequiredFiles =
     [upload_of env 0 (pdf_named ''surat.pdf''), upload_of env 1 (pdf_named ''proposal.pdf''),
      upload_of env 2 (pdf_named ''ktp.pdf'')]"
  by (simp add: research_request_def research_files_def researchRequiredFiles_def
        slot_file_def slot_files_def numeral_2_eq_2)

lemma backdated_request_complete: "fields_complete Research backdated_request"
  by (simp add: backdated_request_def sample_defs validator_defs)

lemma backdated_request_files: "files_valid Research backdated_request"
  by (simp add: backdated_request_def sample_defs validator_defs)

lemma disguised_request_complete: "fields_complete Research disguised_request"
  by (simp add: disguised_request_def sample_defs validator_defs)

lemma disguised_request_files: "files_valid Research disguised_request"
  by (simp add: disguised_request_def sample_defs validator_defs)

lemma disguised_request_uploads:
  "slot_uploads env 0 disguised_request researchRequiredFiles =
     [upload_of env 0 (pdf_named ''surat.pdf''),
      upload_of env 1 \<lparr>originalname = ''setup.exe'', mimetype = ''application/pdf'',
                       buffer = exe_bytes\<rparr>,
      upload_of env 2 (pdf_named ''ktp.pdf'')]"
  by (simp add: disguised_request_def research_request_def research_files_def
        researchRequiredFiles_def slot_file_def slot_files_def numeral_2_eq_2)

lemma disguised_request_run:
  "fst (submit Research healthy disguised_request empty_world) =
     Json \<lparr>status = 200, message = ''Data berhasil disimpan''\<rparr>"
  "objects (snd (submit Research healthy disguised_request empty_world)) ! 1 =
     \<lparr>object_name = ''id-x_setup.exe'', contentType = ''application/pdf'',
      content = exe_bytes\<rparr>"
  "\<exists>doc. documents (snd (submit Research healthy disguised_request empty_world)) =
            [(collectionPath Research, doc)] \<and>
         map_of doc ''proposalUrl'' =
           Some (FString ''https://firebasestorage.googleapis.com/v0/b/govservice-2024.appspot.com/o/id-x_setup.exe?alt=media'')"
proof -
  let ?os = "slot_uploads healthy 0 disguised_request researchRequiredFiles"
  let ?doc = "map (field_value disguised_request) (requiredFields Research)
                @ zip (urlFields Research)
                    [url_of healthy (?os ! 0), url_of healthy (?os ! 1), url_of healthy (?os ! 2)]
                @ [(''timestamp'', FTimestamp 1000)]"
  have u: "uuids_drawn empty_world = 0" "objects empty_world = []" "documents empty_world = []"
    "adds_called empty_world = 0"
    by (simp_all add: empty_world_def)
  have run: "submit Research healthy disguised_request empty_world =
               answered (handler Research healthy disguised_request empty_world)"
    by (rule submit_validated [OF disguised_request_complete disguised_request_files])
  show "fst (submit Research healthy disguised_request empty_world) =
          Json \<lparr>status = 200, message = ''Data berhasil disimpan''\<rparr>"
    unfolding run handler_success [OF disguised_request_files healthy_succeeds] by simp
  show "objects (snd (submit Research healthy disguised_request empty_world)) ! 1 =
          \<lparr>object_name = ''id-x_setup.exe'', contentType = ''application/pdf'',
           content = exe_bytes\<rparr>"
    unfolding run handler_success [OF disguised_request_files healthy_succeeds]
    by (simp add: u disguised_request_uploads upload_of_def healthy_def sample_ids_def)
  have d: "documents (snd (submit Research healthy disguised_request empty_world)) =
             [(collectionPath Research, ?doc)]"
    unfolding run handler_success [OF disguised_request_files healthy_succeeds]
    by (simp add: u disguised_request_uploads healthy_def)
  have "map (map_of ?doc) (urlFields Research) =
          [Some (url_of healthy (?os ! 0)), Some (url_of healthy (?os ! 1)),
           Some (url_of healthy (?os ! 2))]"
    by (rule doc_lookup_urls)
  then have p: "map_of ?doc ''proposalUrl'' = Some (url_of healthy (?os ! 1))"
    by (simp only: urlFields.simps list.map list.inject)
  have q: "url_of healthy (?os ! 1) =
      FString ''https://firebasestorage.googleapis.com/v0/b/govservice-2024.appspot.com/o/id-x_setup.exe?alt=media''"
    by (simp add: disguised_request_uploads url_of_def upload_of_def healthy_def sample_ids_def
          publicUrl_def encodeURIComponent_def uriUnreserved_def)
  show "\<exists>doc. documents (snd (submit Research healthy disguised_request empty_world)) =
            [(collectionPath Research, doc)] \<and>
         map_of doc ''proposalUrl'' =
           Some (FString ''https://firebasestorage.googleapis.com/v0/b/govservice-2024.appspot.com/o/id-x_setup.exe?alt=media'')"
    by (rule exI [of _ ?doc], rule conjI [OF d trans [OF p arg_cong [OF q, of Some]]])
qed

section \<open>The upload middleware and the routes\<close>

lemma length_oversize: "length oversize_bytes = 11534344"
proof -
  have "length oversize_bytes = length pdf_bytes + 11 * 1024 * 1024"
    by (simp only: oversize_bytes_def length_append length_replicate)
  also have "\<dots> = 11534344"
    by (simp add: pdf_bytes_def)
  finally show ?thesis .
qed



lemma oversize_refused: "fileSize \<le> length (buffer oversize_pdf)"
  by (simp add: oversize_pdf_def length_oversize fileSize_def)

lemma pdf_named_accepted:
  "originalname (pdf_named (c # cs)) \<noteq> []" "\<not> fileSize \<le> length (buffer (pdf_named n))"
  by (simp_all add: pdf_named_def pdf_bytes_def fileSize_def)

lemma take_files_oversize:
  "take_files researchRequiredFiles oversize_parts Map.empty = Inl (LIMIT_FILE_SIZE ''proposalFile'')"
  using oversize_refused
  by (simp add: oversize_parts_def researchRequiredFiles_def pdf_named_accepted
        oversize_pdf_def)

lemma take_files_research:
  "take_files researchRequiredFiles research_parts Map.empty = Inr research_files"
proof -
  have "[''suratPengantarFile'' \<mapsto> [pdf_named ''surat.pdf''],
         ''proposalFile'' \<mapsto> [pdf_named ''proposal.pdf''],
         ''ktpFile'' \<mapsto> [pdf_named ''ktp.pdf'']] = research_files"
    by (rule ext) (simp add: research_files_def)
  then show ?thesis
    by (simp add: research_parts_def researchRequiredFiles_def pdf_named_accepted)
qed

lemma upload_research_form:
  "upload_fields researchRequiredFiles research_form = Inr research_request"
  by (simp add: upload_fields_def research_form_def take_files_research research_request_def)

lemma upload_fields_not_multipart:
  "\<not> multipart h \<Longrightarrow> upload_fields slots h = Inr \<lparr>body = form_fields h, files = None\<rparr>"
  by (simp add: upload_fields_def)

lemma upload_fields_Inr:
  assumes "upload_fields slots h = Inr req"
  shows "body req = form_fields h" and "(files req = None) = (\<not> multipart h)"
  using assms by (auto simp: upload_fields_def split: if_splits option.splits sum.splits)

lemma route_accepted:
  "upload_fields (requiredFiles svc) h = Inr req \<Longrightarrow> route svc env h w = submit svc env req w"
  by (simp add: route_unfold)

lemma route_refused:
  "upload_fields (requiredFiles svc) h = Inl e \<Longrightarrow> route svc env h w = (ErrorPage, w)"
  by (simp add: route_unfold)




lemma upload_oversize_incomplete_form:
  "upload_fields researchRequiredFiles oversize_incomplete_form =
     Inl (LIMIT_FILE_SIZE ''proposalFile'')"
  by (simp add: upload_fields_def oversize_incomplete_form_def oversize_form_def
        research_form_def take_files_oversize)

lemma upload_incomplete_form:
  "upload_fields researchRequiredFiles incomplete_form = Inr incomplete_request"
  by (simp add: upload_fields_def incomplete_form_def research_form_def take_files_research
        incomplete_request_def research_request_def)

lemma upload_bad_files_form:
  "upload_fields researchRequiredFiles bad_files_form = Inr bad_files_request"
proof -
  have "[''suratPengantarFile'' \<mapsto> [pdf_named ''surat.pdf''],
         ''proposalFile'' \<mapsto>
           [\<lparr>originalname = ''setup.exe'', mimetype = ''application/x-msdownload'',
             buffer = exe_bytes\<rparr>]] =
        research_files
          (''proposalFile'' \<mapsto>
             [\<lparr>originalname = ''setup.exe'', mimetype = ''application/x-msdownload'',
               buffer = exe_bytes\<rparr>],
           ''ktpFile'' := None)"
    by (rule ext) (simp add: research_files_def)
  moreover have "\<not> fileSize \<le> length exe_bytes"
    by (simp add: exe_bytes_def fileSize_def)
  ultimately show ?thesis
    by (simp add: upload_fields_def bad_files_form_def research_form_def bad_files_request_def
          research_request_def researchRequiredFiles_def pdf_named_accepted)
qed

lemma upload_json_post:
  "upload_fields researchRequiredFiles json_post = Inr json_request"
  by (simp add: upload_fields_def json_post_def json_request_def)


text \<open>
  What the validators make of a parsed request: an incomplete one is answered with 400 by
  the field validator; a complete one without a file mapping makes the file validator
  throw; a complete one with a file mapping and a slot that does not pass is answered with
  400 by the file validator. None of them changes the world.
\<close>

lemma submit_incomplete:
  assumes "\<not> fields_complete svc req"
  shows "\<exists>r. submit svc env req w = (Json r, w) \<and> status r = 400"
proof -
  have "validateForm svc req \<noteq> Next"
    using assms by (simp add: validateForm_requireFields requireFields_Next_iff fields_complete_def)
  then obtain r where r: "validateForm svc req = Respond r"
    using requireFields_no_throw [of "requiredFields svc" req]
    by (cases "validateForm svc req") (simp_all add: validateForm_requireFields)
  then have "status r = 400"
    using requireFields_status [of "requiredFields svc" req r]
    by (simp add: validateForm_requireFields)
  then show ?thesis
    using r by (simp add: submit_unfold)
qed

lemma submit_without_files:
  assumes "fields_complete svc req" and "files req = None"
  shows "submit svc env req w = (ErrorPage, w)"
proof -
  have "validateForm svc req = Next"
    using assms(1) by (simp add: validateForm_requireFields requireFields_Next_iff fields_complete_def)
  moreover have "validateFiles svc req = Throw TypeError"
    using assms(2) requiredFiles_nonempty [of svc]
    by (simp add: validateFiles_requireFiles requireFiles_Throw_iff)
  ultimately show ?thesis
    by (simp add: submit_unfold)
qed

lemma submit_bad_files:
  assumes "fields_complete svc req" and "files req \<noteq> None" and "\<not> files_valid svc req"
  shows "\<exists>r. submit svc env req w = (Json r, w) \<and> status r = 400"
proof -
  have form: "validateForm svc req = Next"
    using assms(1) by (simp add: validateForm_requireFields requireFields_Next_iff fields_complete_def)
  have "validateFiles svc req \<noteq> Next"
    using assms(3) by (simp add: validateFiles_requireFiles requireFiles_Next_iff files_valid_def)
  moreover have "validateFiles svc req \<noteq> Throw e" for e
    using assms(2) by (simp add: validateFiles_requireFiles requireFiles_Throw_iff)
  ultimately obtain r where r: "validateFiles svc req = Respond r"
    by (cases "validateFiles svc req") auto
  then have "status r = 400"
    using requireFiles_status [of "requiredFiles svc" req r]
    by (simp add: validateFiles_requireFiles)
  then show ?thesis
    using form r by (simp add: submit_unfold)
qed

lemma submit_invalid_world:
  assumes "\<not> (fields_complete svc req \<and> files_valid svc req)"
  shows "snd (submit svc env req w) = w"
proof (cases "fields_complete svc req")
  case False
  then show ?thesis
    using submit_incomplete [of svc req env w] by auto
next
  case True
  then have bad: "\<not> files_valid svc req"
    using assms by simp
  show ?thesis
  proof (cases "files req")
    case None
    then show ?thesis
      using submit_without_files [OF True] by simp
  next
    case (Some fm)
    then show ?thesis
      using submit_bad_files [OF True _ bad, of env w] by auto
  qed
qed

text \<open>
  On a request that has a file mapping the file validator reports the first slot that
  does not pass, with the message of what is wrong with it.
\<close>

lemma file_validator_first_failing_slot:
  assumes "files req \<noteq> None"
  shows "((validateFiles svc req = Next) = files_valid svc req) \<and>
   (\<forall>r. validateFiles svc req = Respond r \<longrightarrow> status r = 400) \<and>
   (\<not> files_valid svc req \<longrightarrow>
      (\<exists>pre s post. requiredFiles svc = pre @ s # post \<and>
         (\<forall>t\<in>set pre. slot_passes req t) \<and> \<not> slot_passes req s)) \<and>
   (requiredFiles svc = pre @ s # post \<and> (\<forall>t\<in>set pre. slot_passes req t) \<longrightarrow>
      (slot_missing req s \<longrightarrow>
         validateFiles svc req =
           Respond \<lparr>status = 400, message = ''File '' @ s @ '' is required''\<rparr>) \<and>
      (slot_bad_type req s \<longrightarrow>
         validateFiles svc req =
           Respond \<lparr>status = 400,
                    message = ''File '' @ s @ '' must be a PDF, JPEG, or PNG''\<rparr>) \<and>
      (slot_passes req s \<or> slot_missing req s \<or> slot_bad_type req s))"
proof -
  have "\<exists>pre s post. requiredFiles svc = pre @ s # post \<and>
          (\<forall>t\<in>set pre. slot_passes req t) \<and> \<not> slot_passes req s"
    if "\<not> files_valid svc req"
  proof -
    have "\<exists>s\<in>set (requiredFiles svc). \<not> slot_passes req s"
      using that by (simp add: files_valid_def list_all_iff)
    then show ?thesis
      using split_list_first_prop [of "requiredFiles svc" "\<lambda>s. \<not> slot_passes req s"] by blast
  qed
  then show ?thesis
    using requireFiles_status [of "requiredFiles svc" req] assms
    by (simp add: validateFiles_requireFiles requireFiles_Next_iff files_valid_def
          requireFiles_first_missing requireFiles_first_bad_type slot_cases)
qed


section \<open>Properties of the validators\<close>



text \<open>
  C3 asks for 400 \<^verbatim>\<open>File <slot> is required\<close> whenever a required slot is
  absent. The validator has no case for a request without a file mapping, which is what
  a body that is not multipart leaves: reading \<^verbatim>\<open>req.files[file]\<close> throws. The
  fifteen fields sent as JSON pass the field validator, the file validator throws on the
  first slot, and the route answers with the error page, status 500.
\<close>

theorem C3_file_validator_throws_without_files:
  "\<not> multipart json_post \<and>
   upload_fields (requiredFiles Research) json_post = Inr json_request \<and>
   files json_request = None \<and>
   fields_complete Research json_request \<and>
   slot_missing json_request ''suratPengantarFile'' \<and>
   validateFiles Research json_request = Throw TypeError \<and>
   validateFiles Research json_request \<noteq>
     Respond \<lparr>status = 400, message = ''File suratPengantarFile is required''\<rparr> \<and>
   route Research healthy json_post empty_world = (ErrorPage, empty_world) \<and>
   reply_status (fst (route Research healthy json_post empty_world)) = 500"
proof -
  have a: "\<not> multipart json_post"
    by (simp add: json_post_def)
  have b: "upload_fields (requiredFiles Research) json_post = Inr json_request"
    by (simp add: upload_json_post)
  have c: "files json_request = None"
    by (simp add: json_request_def)
  have d: "fields_complete Research json_request"
    by (simp add: json_request_def fields_complete_def researchRequiredFields_def
          fourteen_fields_def falsy_def)
  have e: "slot_missing json_request ''suratPengantarFile''"
    by (simp add: slot_missing_def slot_files_def c)
  have f: "validateFiles Research json_request = Throw TypeError"
    by (simp add: validateResearchFiles_def researchRequiredFiles_def c)
  have g: "route Research healthy json_post empty_world = (ErrorPage, empty_world)"
    by (simp only: route_accepted [OF b] submit_without_files [OF d c])
  show ?thesis
    by (simp only: a b c d e f g fst_conv reply_status.simps) simp
qed

section \<open>Properties of the routes\<close>

text \<open>
  C1, as stated, fails: a research form without a name whose proposal is larger than the
  limit of \<^verbatim>\<open>upload.fields\<close> is refused by that middleware before any validator
  runs, and the answer is the error page with status 500, not 400.
\<close>

theorem C1_counterexample:
  "multipart oversize_incomplete_form \<and>
   ''name'' \<in> set (requiredFields Research) \<and>
   falsy (form_fields oversize_incomplete_form ''name'') \<and>
   fst (route Research healthy oversize_incomplete_form empty_world) = ErrorPage \<and>
   reply_status (fst (route Research healthy oversize_incomplete_form empty_world)) = 500 \<and>
   reply_status (fst (route Research healthy oversize_incomplete_form empty_world)) \<noteq> 400"
proof -
  have "route Research healthy oversize_incomplete_form empty_world = (ErrorPage, empty_world)"
    by (rule route_refused) (simp add: upload_oversize_incomplete_form)
  then show ?thesis
    by (simp add: oversize_incomplete_form_def oversize_form_def research_form_def falsy_def
          researchRequiredFields_def)
qed

text \<open>
  C1, amended. A submission that \<^verbatim>\<open>upload.fields\<close> refuses is answered with the
  error page and leaves the world as it was. A submission that it hands on, with a
  required field missing, or with a file mapping in which a required slot does not pass,
  is answered with status 400 and leaves the world as it was: no stream is opened, no
  object stored, no \<^verbatim>\<open>add\<close> called, no document written. Conversely, a submission
  that changes the world in any way was handed on with every required field and passes
  in every slot.
\<close>

theorem C1_failed_validation_of_a_parsed_request:
  "(upload_fields (requiredFiles svc) h = Inl e \<longrightarrow> route svc env h w = (ErrorPage, w)) \<and>
   (upload_fields (requiredFiles svc) h = Inr req \<and>
      (\<not> fields_complete svc req \<or> (files req \<noteq> None \<and> \<not> files_valid svc req)) \<longrightarrow>
    reply_status (fst (route svc env h w)) = 400 \<and> snd (route svc env h w) = w) \<and>
   (snd (route svc env h w) \<noteq> w \<longrightarrow>
      (\<exists>req. upload_fields (requiredFiles svc) h = Inr req \<and>
         fields_complete svc req \<and> files_valid svc req))"
proof -
  have first: "reply_status (fst (route svc env h w)) = 400 \<and> snd (route svc env h w) = w"
    if up: "upload_fields (requiredFiles svc) h = Inr req"
      and bad: "\<not> fields_complete svc req \<or> (files req \<noteq> None \<and> \<not> files_valid svc req)"
  proof (cases "fields_complete svc req")
    case False
    then show ?thesis
      using submit_incomplete [of svc req env w] route_accepted [OF up, of env w] by auto
  next
    case True
    then have "files req \<noteq> None" "\<not> files_valid svc req"
      using bad by simp_all
    then show ?thesis
      using submit_bad_files [OF True, of env w] route_accepted [OF up, of env w] by auto
  qed
  have second: "\<exists>req. upload_fields (requiredFiles svc) h = Inr req \<and>
                  fields_complete svc req \<and> files_valid svc req"
    if changed: "snd (route svc env h w) \<noteq> w"
  proof (cases "upload_fields (requiredFiles svc) h")
    case (Inl e)
    then show ?thesis
      using changed route_refused [OF Inl, of env w] by simp
  next
    case (Inr req)
    then have "snd (submit svc env req w) \<noteq> w"
      using changed route_accepted [OF Inr, of env w] by simp
    then have "fields_complete svc req \<and> files_valid svc req"
      using submit_invalid_world [of svc req env w] by blast
    then show ?thesis
      using Inr by blast
  qed
  show ?thesis
    using first second route_refused [of svc h e env w] by blast
qed

text \<open>
  The oversize form without a name is refused; the form without a name and the form with
  a bad proposal are answered with 400 and leave the empty world empty; the complete form
  changes it.
\<close>

theorem C1_witness:
  "upload_fields (requiredFiles Research) oversize_incomplete_form =
     Inl (LIMIT_FILE_SIZE ''proposalFile'') \<and>
   route Research healthy oversize_incomplete_form empty_world = (ErrorPage, empty_world) \<and>
   upload_fields (requiredFiles Research) incomplete_form = Inr incomplete_request \<and>
   \<not> fields_complete Research incomplete_request \<and>
   reply_status (fst (route Research healthy incomplete_form empty_world)) = 400 \<and>
   snd (route Research healthy incomplete_form empty_world) = empty_world \<and>
   upload_fields (requiredFiles Research) bad_files_form = Inr bad_files_request \<and>
   files bad_files_request \<noteq> None \<and> \<not> files_valid Research bad_files_request \<and>
   reply_status (fst (route Research healthy bad_files_form empty_world)) = 400 \<and>
   snd (route Research healthy bad_files_form empty_world) = empty_world \<and>
   snd (route Research healthy research_form empty_world) \<noteq> empty_world \<and>
   upload_fields (requiredFiles Research) research_form = Inr research_request \<and>
   fields_complete Research research_request \<and> files_valid Research research_request"
proof -
  have a: "upload_fields (requiredFiles Research) incomplete_form = Inr incomplete_request"
    by (simp add: upload_incomplete_form)
  have b: "upload_fields (requiredFiles Research) bad_files_form = Inr bad_files_request"
    by (simp add: upload_bad_files_form)
  have c: "upload_fields (requiredFiles Research) research_form = Inr research_request"
    by (simp add: upload_research_form)
  have d: "files bad_files_request \<noteq> None"
    by (simp add: bad_files_request_def)
  have r: "upload_fields (requiredFiles Research) oversize_incomplete_form =
             Inl (LIMIT_FILE_SIZE ''proposalFile'')"
    by (simp add: upload_oversize_incomplete_form)
  have "adds_called (snd (route Research healthy research_form empty_world)) = 1"
    using handler_success [OF research_request_files healthy_succeeds]
    by (simp only: route_accepted [OF c]
          submit_validated [OF research_request_complete research_request_files] answered_simps)
       (simp add: empty_world_def)
  then have e: "snd (route Research healthy research_form empty_world) \<noteq> empty_world"
    by (auto simp: empty_world_def)
  show ?thesis
    using a b c d e r incomplete_request_fields bad_files_request_files
      research_request_complete research_request_files
      C1_failed_validation_of_a_parsed_request
        [of Research oversize_incomplete_form "LIMIT_FILE_SIZE ''proposalFile''" healthy
            empty_world incomplete_request]
      C1_failed_validation_of_a_parsed_request
        [of Research incomplete_form _ healthy empty_world incomplete_request]
      C1_failed_validation_of_a_parsed_request
        [of Research bad_files_form _ healthy empty_world bad_files_request]
    by blast
qed




text \<open>
  C5. For a request that passed both validators, if one of the three uploads or the
  \<^verbatim>\<open>add\<close> fails, the answer is status 500 with the message
  \<^verbatim>\<open>Terjadi kesalahan saat menyimpan data\<close>, the same whichever step failed. No
  document is written, and \<^verbatim>\<open>add\<close> is not even called when an upload failed. The
  objects stored by the uploads that finished before the failure are all still in the
  bucket, after those that were there before: nothing is deleted.
\<close>

theorem C5_failure_after_validation:
  assumes "fields_complete svc req" and "files_valid svc req"
    and "\<not> services_succeed env w"
  shows "fst (submit svc env req w) =
           Json \<lparr>status = 500, message = ''Terjadi kesalahan saat menyimpan data''\<rparr> \<and>
         documents (snd (submit svc env req w)) = documents w \<and>
         objects (snd (submit svc env req w)) =
           objects w @ take (uploads_before_failure env w)
                         (slot_uploads env (uuids_drawn w) req (requiredFiles svc)) \<and>
         adds_called (snd (submit svc env req w)) =
           (if uploads_before_failure env w < 3 then adds_called w else Suc (adds_called w))"
  using handler_failure [OF assms(2,3)]
  by (simp only: submit_validated [OF assms(1,2)] answered_simps)

text \<open>
  The complete request, once with the second stream failing and once with the database
  refusing: the same answer both times; in the first run the first file stays stored.
\<close>

theorem C5_witness:
  "fields_complete Research research_request \<and> files_valid Research research_request \<and>
   \<not> services_succeed second_stream_fails empty_world \<and>
   \<not> services_succeed (healthy\<lparr>add_error := (\<lambda>n. Some ''UNAVAILABLE'')\<rparr>) empty_world \<and>
   fst (submit Research second_stream_fails research_request empty_world) =
     Json \<lparr>status = 500, message = ''Terjadi kesalahan saat menyimpan data''\<rparr> \<and>
   fst (submit Research (healthy\<lparr>add_error := (\<lambda>n. Some ''UNAVAILABLE'')\<rparr>) research_request
          empty_world) =
     fst (submit Research second_stream_fails research_request empty_world) \<and>
   documents (snd (submit Research second_stream_fails research_request empty_world)) = [] \<and>
   objects (snd (submit Research second_stream_fails research_request empty_world)) =
     [\<lparr>object_name = ''id-_surat.pdf'', contentType = ''application/pdf'',
       content = pdf_bytes\<rparr>] \<and>
   adds_called (snd (submit Research second_stream_fails research_request empty_world)) = 0"
proof -
  have c: "\<not> services_succeed second_stream_fails empty_world"
    by (simp add: services_succeed_def second_stream_fails_def healthy_def empty_world_def)
  have d: "\<not> services_succeed (healthy\<lparr>add_error := (\<lambda>n. Some ''UNAVAILABLE'')\<rparr>) empty_world"
    by (simp add: services_succeed_def healthy_def)
  have m: "uploads_before_failure second_stream_fails empty_world = 1"
    by (simp add: uploads_before_failure_def second_stream_fails_def healthy_def
          empty_world_def)
  have u: "uuids_drawn empty_world = 0" "objects empty_world = []" "documents empty_world = []"
    "adds_called empty_world = 0"
    by (simp_all add: empty_world_def)
  have o: "upload_of second_stream_fails 0 (pdf_named ''surat.pdf'') =
             \<lparr>object_name = ''id-_surat.pdf'', contentType = ''application/pdf'',
              content = pdf_bytes\<rparr>"
    by (simp add: upload_of_def second_stream_fails_def healthy_def sample_ids_def pdf_named_def)
  show ?thesis
    using c d
      C5_failure_after_validation [OF research_request_complete research_request_files c]
      C5_failure_after_validation [OF research_request_complete research_request_files d]
    by (simp add: research_request_complete research_request_files m u o
          research_request_uploads)
qed

text \<open>
  C6. For a request that passed both validators and whose three uploads and
  \<^verbatim>\<open>add\<close> succeed, the answer is 200 and exactly one document is added, to the
  collection of the service. It holds the submitted value of every required field, under
  each URL field the URL of the object stored for the corresponding slot, and under
  \<^verbatim>\<open>timestamp\<close> the time of the server's clock at that \<^verbatim>\<open>add\<close>, which does
  not depend on the request.
\<close>

theorem C6_one_record_per_successful_submission:
  assumes "fields_complete svc req" and "files_valid svc req" and "services_succeed env w"
  shows "fst (submit svc env req w) =
           Json \<lparr>status = 200, message = ''Data berhasil disimpan''\<rparr> \<and>
         (\<exists>doc. documents (snd (submit svc env req w)) =
                  documents w @ [(collectionPath svc, doc)] \<and>
            (\<forall>f\<in>set (requiredFields svc).
               \<exists>v. body req f = Some v \<and> v \<noteq> [] \<and> map_of doc f = Some (FString v)) \<and>
            map (map_of doc) (urlFields svc) =
              map (\<lambda>obj. Some (url_of env obj))
                (slot_uploads env (uuids_drawn w) req (requiredFiles svc)) \<and>
            length (slot_uploads env (uuids_drawn w) req (requiredFiles svc)) =
              length (requiredFiles svc) \<and>
            map_of doc ''timestamp'' = Some (FTimestamp (server_time env (adds_called w))))"
proof -
  obtain o0 o1 o2 where os: "slot_uploads env (uuids_drawn w) req (requiredFiles svc) = [o0, o1, o2]"
    using slot_uploads_valid [OF assms(2)] by blast
  let ?doc = "map (field_value req) (requiredFields svc)
                @ zip (urlFields svc) [url_of env o0, url_of env o1, url_of env o2]
                @ [(''timestamp'', FTimestamp (server_time env (adds_called w)))]"
  have run: "fst (submit svc env req w) =
               Json \<lparr>status = 200, message = ''Data berhasil disimpan''\<rparr>"
    and docs: "documents (snd (submit svc env req w)) = documents w @ [(collectionPath svc, ?doc)]"
    unfolding submit_validated [OF assms(1,2)] handler_success [OF assms(2,3)] os
    by simp_all
  have fields: "\<exists>v. body req f = Some v \<and> v \<noteq> [] \<and> map_of ?doc f = Some (FString v)"
    if mem: "f \<in> set (requiredFields svc)" for f
  proof -
    obtain v where v: "body req f = Some v" "v \<noteq> []"
      using fields_complete_value [OF assms(1) mem] by blast
    have "map_of ?doc f = Some (snd (field_value req f))"
      by (rule doc_lookup_field [OF mem])
    moreover have "snd (field_value req f) = FString v"
      using v by (simp add: field_value_def)
    ultimately have "map_of ?doc f = Some (FString v)"
      by (simp only:)
    with v show ?thesis by blast
  qed
  have three: "length (requiredFiles svc) = 3"
    by (cases svc) (simp_all add: researchRequiredFiles_def internshipRequiredFiles_def)
  have urls: "map (map_of ?doc) (urlFields svc) =
                map (\<lambda>obj. Some (url_of env obj))
                  (slot_uploads env (uuids_drawn w) req (requiredFiles svc))"
    unfolding os doc_lookup_urls by simp
  have stamp: "map_of ?doc ''timestamp'' = Some (FTimestamp (server_time env (adds_called w)))"
    by (rule doc_lookup_timestamp)
  have len: "length (slot_uploads env (uuids_drawn w) req (requiredFiles svc)) =
               length (requiredFiles svc)"
    unfolding os three by simp
  show ?thesis
    using run docs fields urls stamp len by blast
qed

text \<open>
  A complete request that also sends a \<^verbatim>\<open>timestamp\<close> field of its own: the
  document carries the server's time.
\<close>

theorem C6_witness:
  "fields_complete Research backdated_request \<and> files_valid Research backdated_request \<and>
   services_succeed healthy empty_world \<and>
   body backdated_request ''timestamp'' = Some ''1999'' \<and>
   fst (submit Research healthy backdated_request empty_world) =
     Json \<lparr>status = 200, message = ''Data berhasil disimpan''\<rparr> \<and>
   (\<exists>doc. documents (snd (submit Research healthy backdated_request empty_world)) =
            [([''pelayanan'', ''penelitian'', ''data''], doc)] \<and>
      map_of doc ''letterNumber'' = Some (FString ''070/123'') \<and>
      map_of doc ''researchLocation'' = Some (FString ''Sleman'') \<and>
      map (map_of doc) [''suratPengantarUrl'', ''proposalUrl'', ''ktpUrl''] =
        map (\<lambda>obj. Some (url_of healthy obj))
          (slot_uploads healthy 0 backdated_request researchRequiredFiles) \<and>
      map_of doc ''timestamp'' = Some (FTimestamp 1000))"
proof -
  note inst = C6_one_record_per_successful_submission
               [OF backdated_request_complete backdated_request_files healthy_succeeds]
  then obtain doc where
    d: "documents (snd (submit Research healthy backdated_request empty_world)) =
          documents empty_world @ [(collectionPath Research, doc)]"
    and f: "\<forall>f\<in>set (requiredFields Research).
              \<exists>v. body backdated_request f = Some v \<and> v \<noteq> [] \<and> map_of doc f = Some (FString v)"
    and u: "map (map_of doc) (urlFields Research) =
              map (\<lambda>obj. Some (url_of healthy obj))
                (slot_uploads healthy (uuids_drawn empty_world) backdated_request
                   (requiredFiles Research))"
    and t: "map_of doc ''timestamp'' = Some (FTimestamp (server_time healthy (adds_called empty_world)))"
    by blast
  have "''letterNumber'' \<in> set (requiredFields Research)"
    "''researchLocation'' \<in> set (requiredFields Research)"
    by (simp_all add: researchRequiredFields_def)
  then have "\<exists>v. body backdated_request ''letterNumber'' = Some v \<and>
                 map_of doc ''letterNumber'' = Some (FString v)"
    "\<exists>v. body backdated_request ''researchLocation'' = Some v \<and>
                 map_of doc ''researchLocation'' = Some (FString v)"
    using f by blast+
  then have l: "map_of doc ''letterNumber'' = Some (FString ''070/123'')"
    "map_of doc ''researchLocation'' = Some (FString ''Sleman'')"
    by (auto simp: backdated_request_def sample_defs)
  have b: "body backdated_request ''timestamp'' = Some ''1999''"
    by (simp add: backdated_request_def sample_defs)
  show ?thesis
    using inst d l u t b backdated_request_complete backdated_request_files healthy_succeeds
    by (intro conjI exI [of _ doc]) (simp_all add: empty_world_def healthy_def)
qed

text \<open>
  C7. For a request that passed both validators, the events that the handler adds to the
  trace are sequential: a stream is opened only when none is open, and \<^verbatim>\<open>add\<close> is
  called only when none is open. The streams are opened in the order of the slots, up to
  and including the first that fails. \<^verbatim>\<open>add\<close> is called exactly when all three
  uploads finished, and then the streams finished before the call are those of the three
  slots, in order.
\<close>

theorem C7_uploads_in_slot_order_before_the_append:
  assumes "fields_complete svc req" and "files_valid svc req"
  shows "\<exists>new. trace (snd (submit svc env req w)) = trace w @ new \<and>
           sequential None new \<and>
           opened new = take (Suc (uploads_before_failure env w))
                          (map object_name (slot_uploads env (uuids_drawn w) req (requiredFiles svc))) \<and>
           add_called new = (uploads_before_failure env w = 3) \<and>
           (add_called new \<longrightarrow>
              finished_before_add new =
                map object_name (slot_uploads env (uuids_drawn w) req (requiredFiles svc)))"
  using handler_trace [OF assms(2)]
  by (simp only: submit_validated [OF assms(1,2)] answered_simps)

theorem C7_witness:
  "fields_complete Research research_request \<and> files_valid Research research_request \<and>
   trace (snd (submit Research healthy research_request empty_world)) =
     [StreamOpened ''id-_surat.pdf'', StreamFinished ''id-_surat.pdf'',
      StreamOpened ''id-x_proposal.pdf'', StreamFinished ''id-x_proposal.pdf'',
      StreamOpened ''id-xx_ktp.pdf'', StreamFinished ''id-xx_ktp.pdf'',
      AddCalled [''pelayanan'', ''penelitian'', ''data''],
      AddResolved [''pelayanan'', ''penelitian'', ''data'']] \<and>
   (\<exists>new. trace (snd (submit Research healthy research_request empty_world)) =
       trace empty_world @ new \<and>
     sequential None new \<and>
     opened new = [''id-_surat.pdf'', ''id-x_proposal.pdf'', ''id-xx_ktp.pdf''] \<and>
     add_called new \<and>
     finished_before_add new = [''id-_surat.pdf'', ''id-x_proposal.pdf'', ''id-xx_ktp.pdf''])"
proof -
  have m: "uploads_before_failure healthy empty_world = 3"
    by (simp add: uploads_before_failure_def healthy_def)
  have u: "uuids_drawn empty_world = 0" "trace empty_world = []"
    by (simp_all add: empty_world_def)
  have n: "map object_name (slot_uploads healthy 0 research_request (requiredFiles Research)) =
             [''id-_surat.pdf'', ''id-x_proposal.pdf'', ''id-xx_ktp.pdf'']"
    by (simp add: research_request_uploads upload_of_def healthy_def sample_ids_def
          pdf_named_def numeral_2_eq_2)
  have t: "trace (snd (submit Research healthy research_request empty_world)) =
     [StreamOpened ''id-_surat.pdf'', StreamFinished ''id-_surat.pdf'',
      StreamOpened ''id-x_proposal.pdf'', StreamFinished ''id-x_proposal.pdf'',
      StreamOpened ''id-xx_ktp.pdf'', StreamFinished ''id-xx_ktp.pdf'',
      AddCalled [''pelayanan'', ''penelitian'', ''data''],
      AddResolved [''pelayanan'', ''penelitian'', ''data'']]"
    using handler_success [OF research_request_files healthy_succeeds]
      submit_validated [OF research_request_complete research_request_files, of healthy empty_world]
    by (simp add: u research_request_uploads upload_of_def healthy_def sample_ids_def
          pdf_named_def numeral_2_eq_2)
  show ?thesis
    using t
      C7_uploads_in_slot_order_before_the_append
        [OF research_request_complete research_request_files, of healthy empty_world]
    by (simp add: research_request_complete research_request_files m u n)
qed

text \<open>
  C9. When the file validator has called \<^verbatim>\<open>next()\<close>, every required slot is
  present, so that the upload expression of a slot never yields \<^verbatim>\<open>null\<close>; and the
  handler either writes no document or writes one whose three URL fields are strings.
\<close>

theorem C9_null_branches_unreachable:
  assumes "validateFiles svc req = Next"
  shows "(\<forall>s\<in>set (requiredFiles svc).
            slot_files req s \<noteq> None \<and> fst (uploadSlot env req s w) \<noteq> Inr FNull) \<and>
         (documents (snd (handler svc env req w)) = documents w \<or>
          (\<exists>doc u0 u1 u2.
             documents (snd (handler svc env req w)) = documents w @ [(collectionPath svc, doc)] \<and>
             map (map_of doc) (urlFields svc) =
               [Some (FString u0), Some (FString u1), Some (FString u2)]))"
proof -
  have valid: "files_valid svc req"
    using assms by (simp add: validateFiles_requireFiles requireFiles_Next_iff files_valid_def)
  have slots: "slot_files req s \<noteq> None \<and> fst (uploadSlot env req s w) \<noteq> Inr FNull"
    if mem: "s \<in> set (requiredFiles svc)" for s
  proof -
    obtain f fs where "slot_files req s = Some (f # fs)"
      using valid mem by (auto simp: files_valid_def list_all_iff slot_passes_file)
    then show ?thesis
      using uploadSlot_not_null by simp
  qed
  obtain o0 o1 o2 where os: "slot_uploads env (uuids_drawn w) req (requiredFiles svc) = [o0, o1, o2]"
    using slot_uploads_valid [OF valid] by blast
  have docs: "documents (snd (handler svc env req w)) = documents w \<or>
          (\<exists>doc u0 u1 u2.
             documents (snd (handler svc env req w)) = documents w @ [(collectionPath svc, doc)] \<and>
             map (map_of doc) (urlFields svc) =
               [Some (FString u0), Some (FString u1), Some (FString u2)])"
  proof (cases "services_succeed env w")
    case True
    let ?u0 = "publicUrl (bucket_name env) (object_name o0)"
    let ?u1 = "publicUrl (bucket_name env) (object_name o1)"
    let ?u2 = "publicUrl (bucket_name env) (object_name o2)"
    let ?doc = "map (field_value req) (requiredFields svc)
                @ zip (urlFields svc) [FString ?u0, FString ?u1, FString ?u2]
                @ [(''timestamp'', FTimestamp (server_time env (adds_called w)))]"
    have d: "documents (snd (handler svc env req w)) = documents w @ [(collectionPath svc, ?doc)]"
      unfolding handler_success [OF valid True] os by (simp add: url_of_def)
    have m: "map (map_of ?doc) (urlFields svc) =
               [Some (FString ?u0), Some (FString ?u1), Some (FString ?u2)]"
      by (rule doc_lookup_urls)
    show ?thesis
      by (rule disjI2, rule exI [of _ ?doc], rule exI [of _ ?u0], rule exI [of _ ?u1],
          rule exI [of _ ?u2], rule conjI [OF d m])
  next
    case False
    then show ?thesis
      using handler_failure [OF valid False] by simp
  qed
  show ?thesis
    using slots docs by blast
qed

theorem C9_witness:
  "validateFiles Research research_request = Next \<and>
   slot_files research_request ''suratPengantarFile'' \<noteq> None \<and>
   slot_files research_request ''proposalFile'' \<noteq> None \<and>
   slot_files research_request ''ktpFile'' \<noteq> None \<and>
   fst (uploadSlot healthy research_request ''ktpFile'' empty_world) \<noteq> Inr FNull \<and>
   documents (snd (handler Research healthy research_request empty_world)) \<noteq>
     documents empty_world \<and>
   (\<exists>doc u0 u1 u2.
      documents (snd (handler Research healthy research_request empty_world)) =
        documents empty_world @ [(collectionPath Research, doc)] \<and>
      map (map_of doc) (urlFields Research) =
        [Some (FString u0), Some (FString u1), Some (FString u2)])"
proof -
  have a: "validateFiles Research research_request = Next"
    by (simp only: validateFiles_requireFiles requireFiles_Next_iff
          research_request_files [unfolded files_valid_def])
  have b: "documents (snd (handler Research healthy research_request empty_world)) \<noteq>
             documents empty_world"
    unfolding handler_success [OF research_request_files healthy_succeeds] by simp
  show ?thesis
    using a b C9_null_branches_unreachable [OF a, of healthy empty_world]
    by (simp add: researchRequiredFiles_def)
qed

text \<open>
  C10. Neither the validator nor the route looks at the bytes of a file. Rewriting the
  bytes of every file of a request changes neither the validator's verdict, nor the
  response, nor the documents written, nor the names and content types of the objects
  stored; the objects stored carry the rewritten bytes. In particular there is a request
  whose proposal is declared \<^verbatim>\<open>application/pdf\<close> while its bytes are neither a PDF,
  nor a JPEG, nor a PNG: it passes validation and is answered with 200, the bytes are
  stored with content type \<^verbatim>\<open>application/pdf\<close>, and the document points to them.
\<close>

theorem C10_declared_type_is_trusted:
  "validateFiles svc (with_bytes g req) = validateFiles svc req \<and>
   fst (submit svc env (with_bytes g req) w) = fst (submit svc env req w) \<and>
   documents (snd (submit svc env (with_bytes g req) w)) =
     documents (snd (submit svc env req w)) \<and>
   map object_name (objects (snd (submit svc env (with_bytes g req) w))) =
     map object_name (objects (snd (submit svc env req w))) \<and>
   map contentType (objects (snd (submit svc env (with_bytes g req) w))) =
     map contentType (objects (snd (submit svc env req w))) \<and>
   map content (objects (snd (submit svc env (with_bytes g req) w))) =
     map content (objects w) @
     map (g \<circ> content) (drop (length (objects w)) (objects (snd (submit svc env req w)))) \<and>
   slot_file disguised_request ''proposalFile'' =
     Some \<lparr>originalname = ''setup.exe'', mimetype = ''application/pdf'', buffer = exe_bytes\<rparr> \<and>
   ''application/pdf'' \<in> set allowedMimeTypes \<and>
   \<not> is_pdf exe_bytes \<and> \<not> is_jpeg exe_bytes \<and> \<not> is_png exe_bytes \<and>
   validateFiles Research disguised_request = Next \<and>
   fst (submit Research healthy disguised_request empty_world) =
     Json \<lparr>status = 200, message = ''Data berhasil disimpan''\<rparr> \<and>
   objects (snd (submit Research healthy disguised_request empty_world)) ! 1 =
     \<lparr>object_name = ''id-x_setup.exe'', contentType = ''application/pdf'',
      content = exe_bytes\<rparr> \<and>
   (\<exists>doc. documents (snd (submit Research healthy disguised_request empty_world)) =
            [(collectionPath Research, doc)] \<and>
      map_of doc ''proposalUrl'' =
        Some (FString ''https://firebasestorage.googleapis.com/v0/b/govservice-2024.appspot.com/o/id-x_setup.exe?alt=media''))"
proof -
  have files: "validateFiles svc (with_bytes g req) = validateFiles svc req"
    by (simp only: validateFiles_requireFiles requireFiles_with_bytes)
  have slot: "slot_file disguised_request ''proposalFile'' =
     Some \<lparr>originalname = ''setup.exe'', mimetype = ''application/pdf'', buffer = exe_bytes\<rparr>"
    by (simp add: slot_file_def slot_files_def disguised_request_def)
  have allowed: "''application/pdf'' \<in> set allowedMimeTypes"
    by (simp add: allowedMimeTypes_def)
  have bytes: "\<not> is_pdf exe_bytes" "\<not> is_jpeg exe_bytes" "\<not> is_png exe_bytes"
    by (simp_all add: is_pdf_def is_jpeg_def is_png_def exe_bytes_def)
  have passes: "validateFiles Research disguised_request = Next"
    by (simp only: validateFiles_requireFiles requireFiles_Next_iff
          disguised_request_files [unfolded files_valid_def])
  show ?thesis
    using files submit_with_bytes [of svc env g req w] slot allowed bytes passes
      disguised_request_run
    by blast
qed

text \<open>The complete request with every file replaced by the bytes of a program.\<close>

theorem C10_witness:
  "validateFiles Research (with_bytes (\<lambda>bs. exe_bytes) research_request) = Next \<and>
   slot_file (with_bytes (\<lambda>bs. exe_bytes) research_request) ''ktpFile'' =
     Some \<lparr>originalname = ''ktp.pdf'', mimetype = ''application/pdf'', buffer = exe_bytes\<rparr> \<and>
   fst (submit Research healthy (with_bytes (\<lambda>bs. exe_bytes) research_request) empty_world) =
     Json \<lparr>status = 200, message = ''Data berhasil disimpan''\<rparr> \<and>
   map contentType
     (objects (snd (submit Research healthy (with_bytes (\<lambda>bs. exe_bytes) research_request)
                      empty_world))) =
     [''application/pdf'', ''application/pdf'', ''application/pdf''] \<and>
   map content
     (objects (snd (submit Research healthy (with_bytes (\<lambda>bs. exe_bytes) research_request)
                      empty_world))) =
     [exe_bytes, exe_bytes, exe_bytes]"
proof -
  have a: "validateFiles Research research_request = Next"
    by (simp only: validateFiles_requireFiles requireFiles_Next_iff
          research_request_files [unfolded files_valid_def])
  have s: "slot_file (with_bytes (\<lambda>bs. exe_bytes) research_request) ''ktpFile'' =
     Some \<lparr>originalname = ''ktp.pdf'', mimetype = ''application/pdf'', buffer = exe_bytes\<rparr>"
    by (simp add: slot_file_def slot_files_def with_bytes_def research_request_def research_files_def
          pdf_named_def)
  have run: "submit Research healthy research_request empty_world =
               answered (handler Research healthy research_request empty_world)"
    by (rule submit_validated [OF research_request_complete research_request_files])
  have r: "fst (submit Research healthy research_request empty_world) =
             Json \<lparr>status = 200, message = ''Data berhasil disimpan''\<rparr>"
    "objects (snd (submit Research healthy research_request empty_world)) =
       slot_uploads healthy 0 research_request researchRequiredFiles"
    unfolding run handler_success [OF research_request_files healthy_succeeds]
    by (simp_all add: empty_world_def)
  show ?thesis
    using a s r
      C10_declared_type_is_trusted [of Research "\<lambda>bs. exe_bytes" research_request healthy
                                       empty_world]
    by (simp add: research_request_uploads upload_of_def pdf_named_def empty_world_def)
qed

section \<open>Properties of the upload helper\<close>

text \<open>
  C8. The helper draws the next identifier and touches neither the database nor any
  object already stored. If the stream finishes, one object is stored: its name is the
  identifier, an underscore and the original name, its content type the declared type of
  the file, its content the whole buffer; the helper resolves with the URL made of the
  fixed prefix, the bucket's name, the encoded name of that object and
  \<^verbatim>\<open>?alt=media\<close>, and the trace shows the stream and nothing else. If the stream
  emits an error, nothing is stored and the helper rejects with that error.
\<close>

theorem C8_upload_helper:
  "uuids_drawn (snd (uploadFileToFirebase env f w)) = Suc (uuids_drawn w) \<and>
   documents (snd (uploadFileToFirebase env f w)) = documents w \<and>
   adds_called (snd (uploadFileToFirebase env f w)) = adds_called w \<and>
   (case stream_error env (streams_opened w) of
      None \<Rightarrow>
        objects (snd (uploadFileToFirebase env f w)) =
          objects w @ [\<lparr>object_name = uuidv4 env (uuids_drawn w) @ ''_'' @ originalname f,
                         contentType = mimetype f, content = buffer f\<rparr>] \<and>
        fst (uploadFileToFirebase env f w) =
          Inr (''https://firebasestorage.googleapis.com/v0/b/'' @ bucket_name env @ ''/o/''
               @ encodeURIComponent (object_name (last (objects (snd (uploadFileToFirebase env f w)))))
               @ ''?alt=media'') \<and>
        trace (snd (uploadFileToFirebase env f w)) =
          trace w @ [StreamOpened (uuidv4 env (uuids_drawn w) @ ''_'' @ originalname f),
                     StreamFinished (uuidv4 env (uuids_drawn w) @ ''_'' @ originalname f)]
    | Some e \<Rightarrow>
        objects (snd (uploadFileToFirebase env f w)) = objects w \<and>
        fst (uploadFileToFirebase env f w) = Inl (StreamError e) \<and>
        trace (snd (uploadFileToFirebase env f w)) =
          trace w @ [StreamOpened (uuidv4 env (uuids_drawn w) @ ''_'' @ originalname f),
                     StreamErrored (uuidv4 env (uuids_drawn w) @ ''_'' @ originalname f)])"
  by (simp add: uploadFileToFirebase_def Let_def publicUrl_def split: option.splits)

theorem C8_witness:
  "fst (uploadFileToFirebase healthy (pdf_named ''surat izin.pdf'') empty_world) =
     Inr ''https://firebasestorage.googleapis.com/v0/b/govservice-2024.appspot.com/o/id-_surat%20izin.pdf?alt=media'' \<and>
   objects (snd (uploadFileToFirebase healthy (pdf_named ''surat izin.pdf'') empty_world)) =
     [\<lparr>object_name = ''id-_surat izin.pdf'', contentType = ''application/pdf'',
       content = pdf_bytes\<rparr>] \<and>
   fst (uploadFileToFirebase second_stream_fails (pdf_named ''surat izin.pdf'')
          (empty_world\<lparr>streams_opened := 1\<rparr>)) = Inl (StreamError ''ECONNRESET'') \<and>
   objects (snd (uploadFileToFirebase second_stream_fails (pdf_named ''surat izin.pdf'')
          (empty_world\<lparr>streams_opened := 1\<rparr>))) = []"
  using C8_upload_helper [of healthy "pdf_named ''surat izin.pdf''" empty_world]
    C8_upload_helper [of second_stream_fails "pdf_named ''surat izin.pdf''"
                         "empty_world\<lparr>streams_opened := 1\<rparr>"]
  by (simp add: healthy_def second_stream_fails_def empty_world_def pdf_named_def
        sample_ids_def encodeURIComponent_def uriUnreserved_def percentEncode_def hexDigit_def)

end
